theory Spec2Isabelle
  imports Main "HOL-Library.Sublist" "HOL-Library.AList" "HOL-Library.Char_ord" "HOL-Library.List_Lexorder"
begin

section \<open>Exceptions\<close>

text \<open>
  A Python exception is a value: its class, as far as the source tells classes apart
  (\<open>except RuntimeError\<close> in \<open>pages/identity.py\<close>, \<open>raise RuntimeError(...)\<close> in
  \<open>utils/sql_client.py\<close>), and its message \<open>str(e)\<close>. A computation that may raise
  returns \<open>exn + 'a\<close>, with \<open>Inl\<close> for the exception.
\<close>

datatype exn = RuntimeError string | Exception string

fun str_exn :: "exn \<Rightarrow> string" where
  "str_exn (RuntimeError msg) = msg"
| "str_exn (Exception msg) = msg"

section \<open>Python strings\<close>

text \<open>
  A string is the list of the bytes of its UTF-8 encoding: a character of ASCII is one
  byte, a character outside ASCII in a literal of the source is written as its bytes. The
  methods are those of \<open>str\<close>: \<open>lower\<close>, \<open>strip()\<close>, \<open>rstrip(chars)\<close>, \<open>in\<close>, \<open>join\<close>, and
  the formats \<open>str(n)\<close> and \<open>{n:,}\<close> of an integer.
\<close>

text \<open>
  The characters for which \<open>str.isspace()\<close> holds, which are those \<open>strip()\<close> removes,
  each as its encoding: U+0009 to U+000D, U+001C to U+0020, U+0085, U+00A0, U+1680,
  U+2000 to U+200A, U+2028, U+2029, U+202F, U+205F and U+3000.
\<close>

definition whitespace :: "string list" where
  "whitespace =
     [[CHR 0x09], [CHR 0x0A], [CHR 0x0B], [CHR 0x0C], [CHR 0x0D],
      [CHR 0x1C], [CHR 0x1D], [CHR 0x1E], [CHR 0x1F], [CHR 0x20],
      [CHR 0xC2, CHR 0x85], [CHR 0xC2, CHR 0xA0], [CHR 0xE1, CHR 0x9A, CHR 0x80],
      [CHR 0xE2, CHR 0x80, CHR 0x80], [CHR 0xE2, CHR 0x80, CHR 0x81],
      [CHR 0xE2, CHR 0x80, CHR 0x82], [CHR 0xE2, CHR 0x80, CHR 0x83],
      [CHR 0xE2, CHR 0x80, CHR 0x84], [CHR 0xE2, CHR 0x80, CHR 0x85],
      [CHR 0xE2, CHR 0x80, CHR 0x86], [CHR 0xE2, CHR 0x80, CHR 0x87],
      [CHR 0xE2, CHR 0x80, CHR 0x88], [CHR 0xE2, CHR 0x80, CHR 0x89],
      [CHR 0xE2, CHR 0x80, CHR 0x8A], [CHR 0xE2, CHR 0x80, CHR 0xA8],
      [CHR 0xE2, CHR 0x80, CHR 0xA9], [CHR 0xE2, CHR 0x80, CHR 0xAF],
      [CHR 0xE2, CHR 0x81, CHR 0x9F], [CHR 0xE3, CHR 0x80, CHR 0x80]]"

text \<open>
  \<open>lower\<close> folds the letters A to Z. Python's \<open>lower()\<close> also folds letters outside
  ASCII; that leaves every occurrence of a word of ASCII letters as it is, but for U+0130
  and U+212A, whose lower case holds the letters \<open>i\<close> (followed by U+0307) and \<open>k\<close>.
\<close>

definition lower_char :: "char \<Rightarrow> char" where
  "lower_char c =
     (case map_of (zip ''ABCDEFGHIJKLMNOPQRSTUVWXYZ'' ''abcdefghijklmnopqrstuvwxyz'') c of
        Some d \<Rightarrow> d
      | None \<Rightarrow> c)"

definition lower :: "string \<Rightarrow> string" where
  "lower s = map lower_char s"

text \<open>Removing, from the front, every leading occurrence of one of the given words.\<close>

function strip_prefixes :: "string list \<Rightarrow> string \<Rightarrow> string" where
  "strip_prefixes ws s =
     (case find (\<lambda>w. w \<noteq> [] \<and> prefix w s) ws of
        None \<Rightarrow> s
      | Some w \<Rightarrow> strip_prefixes ws (drop (length w) s))"
  by pat_completeness auto
termination
proof (relation "measure (\<lambda>(ws, s). length s)")
  show "wf (measure (\<lambda>(ws, s). length s))" by simp
next
  fix ws :: "string list" and s w :: string
  assume "find (\<lambda>w. w \<noteq> [] \<and> prefix w s) ws = Some w"
  then have "w \<noteq> [] \<and> prefix w s" by (auto simp: find_Some_iff)
  then have "length (drop (length w) s) < length s"
    by (auto simp: prefix_def)
  then show "((ws, drop (length w) s), (ws, s)) \<in> measure (\<lambda>(ws, s). length s)" by simp
qed

declare strip_prefixes.simps [simp del]

text \<open>\<open>s.strip()\<close>: the whitespace characters at the front and at the end are removed.\<close>

definition strip :: "string \<Rightarrow> string" where
  "strip s = rev (strip_prefixes (map rev whitespace) (rev (strip_prefixes whitespace s)))"

definition rstrip :: "string \<Rightarrow> string \<Rightarrow> string" where
  "rstrip chars s = rev (dropWhile (\<lambda>c. c \<in> set chars) (rev s))"

text \<open>\<open>contains needle s\<close> is \<open>needle in s\<close>.\<close>

fun contains :: "string \<Rightarrow> string \<Rightarrow> bool" where
  "contains needle [] = (needle = [])"
| "contains needle (c # cs) = (prefix needle (c # cs) \<or> contains needle cs)"

fun join :: "string \<Rightarrow> string list \<Rightarrow> string" where
  "join sep [] = []"
| "join sep [x] = x"
| "join sep (x # y # ys) = x @ sep @ join sep (y # ys)"

definition digit_char :: "nat \<Rightarrow> char" where
  "digit_char d = ''0123456789'' ! (d mod 10)"

fun str_nat :: "nat \<Rightarrow> string" where
  "str_nat n = (if n < 10 then [digit_char n] else str_nat (n div 10) @ [digit_char (n mod 10)])"

declare str_nat.simps [simp del]

definition str_int :: "int \<Rightarrow> string" where
  "str_int i = (if i < 0 then CHR ''-'' # str_nat (nat (- i)) else str_nat (nat i))"

fun format_thousands :: "nat \<Rightarrow> string" where
  "format_thousands n =
     (if n < 1000 then str_nat n
      else format_thousands (n div 1000) @ '','' @
           [digit_char (n mod 1000 div 100), digit_char (n mod 100 div 10), digit_char (n mod 10)])"

declare format_thousands.simps [simp del]

section \<open>Components\<close>

text \<open>
  What a callback returns to Dash: a tree of components. An element has the name of its
  constructor, its keyword arguments that are strings (an entry of a \<open>style\<close> or \<open>id\<close>
  dictionary under the dictionary's name, a dot and the key) and its children. A
  drop-down has its id, its options and its value; a data table shows a frame; \<open>None\<close>
  is a child that renders nothing. \<open>dash.no_update\<close> is the output that leaves the
  property as it was.
\<close>

datatype dtype = Int64 | Float64 | Bool | Object | Datetime64

record dataframe =
  columns :: "(string \<times> dtype) list"
  records :: "string list list"

datatype component =
    Null
  | Text string
  | Elem string "(string \<times> string) list" "component list"
  | Dropdown string "string list" string
  | DataTable dataframe

datatype 'a update = NoUpdate | Update 'a

fun apply_update :: "'a update \<Rightarrow> 'a \<Rightarrow> 'a" where
  "apply_update NoUpdate old = old"
| "apply_update (Update v) old = v"

section \<open>utils/components.py\<close>

definition RED :: string where
  "RED = ''#FF3621''"

definition warning_sign :: string where
  "warning_sign = [CHR 0xE2, CHR 0x9A, CHR 0xA0, CHR 0xEF, CHR 0xB8, CHR 0x8F]"

definition kpi_card :: "string \<Rightarrow> string \<Rightarrow> string \<Rightarrow> component" where
  "kpi_card title v color =
     Elem ''dbc.Card'' [(''className'', ''shadow-sm'')]
       [Elem ''dbc.CardBody'' []
          [Elem ''html.P'' [(''className'', ''text-muted small mb-1'')] [Text title],
           Elem ''html.H4'' [(''style.color'', color), (''style.fontWeight'', ''bold'')] [Text v]]]"

definition error_alert :: "string \<Rightarrow> component" where
  "error_alert msg =
     Elem ''dbc.Alert'' [(''color'', ''danger''), (''className'', ''mt-3'')]
       [Text (warning_sign @ '' '' @ msg)]"

section \<open>utils/sql\_client.py\<close>

subsection \<open>The collaborators\<close>

text \<open>
  A warehouse as \<open>w.warehouses.list()\<close> yields it: the three attributes the source reads.
  \<open>enable_serverless_compute\<close> is an optional boolean, \<open>state\<close> an optional enumeration
  whose \<open>value\<close> is a string.
\<close>

record warehouse =
  wh_id :: string
  enable_serverless_compute :: "bool option"
  state :: "string option"

type_synonym conn = nat

text \<open>
  What lies outside the process at the moment of one call: whether \<open>WorkspaceClient()\<close>
  can be built, the value of \<open>DATABRICKS_WAREHOUSE_ID\<close>, the warehouse listing, the result
  of \<open>Config()\<close> followed by \<open>sql.connect\<close> for a path, and what a cursor returns
  for a statement. Different calls may see different environments.
\<close>

record env =
  workspace_client :: "exn option"
  getenv_warehouse_id :: "string option"
  warehouses_list :: "exn + warehouse list"
  sql_connect :: "string \<Rightarrow> exn + conn"
  cursor_execute :: "conn \<Rightarrow> string \<Rightarrow> exn + dataframe"

subsection \<open>functools.lru\_cache(maxsize=1)\<close>

text \<open>
  The decorator of both getters: one stored entry, a pair of the call's key and its
  result. A call whose key is the stored one returns the stored result and computes
  nothing; any other call computes, a raised exception passes to the caller and leaves
  the store as it was, a returned value replaces the stored entry.
\<close>

definition lru_cache1 ::
  "('k \<Rightarrow> exn + 'v) \<Rightarrow> ('k \<times> 'v) option \<Rightarrow> 'k \<Rightarrow> (exn + 'v) \<times> ('k \<times> 'v) option" where
  "lru_cache1 f cache k =
     (case cache of
        Some (k', v) \<Rightarrow>
          if k' = k then (Inr v, cache)
          else (case f k of Inl x \<Rightarrow> (Inl x, cache) | Inr v' \<Rightarrow> (Inr v', Some (k, v')))
      | None \<Rightarrow> (case f k of Inl x \<Rightarrow> (Inl x, cache) | Inr v' \<Rightarrow> (Inr v', Some (k, v'))))"

record sql_client =
  path_cache :: "(unit \<times> string option) option"
  conn_cache :: "(string \<times> conn) option"

definition sql_client_init :: sql_client where
  "sql_client_init = \<lparr>path_cache = None, conn_cache = None\<rparr>"

subsection \<open>get\_warehouse\_http\_path\<close>

definition warehouse_path :: "string \<Rightarrow> string" where
  "warehouse_path i = ''/sql/1.0/warehouses/'' @ i"

definition is_serverless :: "warehouse \<Rightarrow> bool" where
  "is_serverless wh = (enable_serverless_compute wh = Some True)"

definition is_running :: "warehouse \<Rightarrow> bool" where
  "is_running wh = (state wh = Some ''RUNNING'')"

text \<open>The statements of the \<open>try\<close> block after the test of the override.\<close>

definition discover_from_listing :: "env \<Rightarrow> exn + string option" where
  "discover_from_listing e =
     (case warehouses_list e of
        Inl x \<Rightarrow> Inl x
      | Inr warehouses \<Rightarrow>
          (let serverless = filter is_serverless warehouses in
           if serverless \<noteq> [] then Inr (Some (warehouse_path (wh_id (hd serverless))))
           else
             (let running = filter is_running warehouses in
              if running \<noteq> [] then Inr (Some (warehouse_path (wh_id (hd running))))
              else if warehouses \<noteq> [] then Inr (Some (warehouse_path (wh_id (hd warehouses))))
              else Inr None)))"

text \<open>The \<open>try\<close> block: the client is built first, then the override is read.\<close>

definition discover_try :: "env \<Rightarrow> exn + string option" where
  "discover_try e =
     (case workspace_client e of
        Some x \<Rightarrow> Inl x
      | None \<Rightarrow>
          (case getenv_warehouse_id e of
             Some warehouse_id \<Rightarrow>
               if warehouse_id \<noteq> [] then Inr (Some (warehouse_path warehouse_id))
               else discover_from_listing e
           | None \<Rightarrow> discover_from_listing e))"

text \<open>The undecorated function: \<open>except Exception: pass\<close>, then \<open>return None\<close>.\<close>

definition get_warehouse_http_path_body :: "env \<Rightarrow> string option" where
  "get_warehouse_http_path_body e = (case discover_try e of Inl x \<Rightarrow> None | Inr r \<Rightarrow> r)"

definition get_warehouse_http_path :: "sql_client \<Rightarrow> env \<Rightarrow> (exn + string option) \<times> sql_client" where
  "get_warehouse_http_path s e =
     (case lru_cache1 (\<lambda>u. Inr (get_warehouse_http_path_body e)) (path_cache s) () of
        (r, c) \<Rightarrow> (r, s\<lparr>path_cache := c\<rparr>))"

subsection \<open>get\_connection and run\_query\<close>

definition get_connection :: "sql_client \<Rightarrow> string \<Rightarrow> env \<Rightarrow> (exn + conn) \<times> sql_client" where
  "get_connection s http_path e =
     (case lru_cache1 (sql_connect e) (conn_cache s) http_path of
        (r, c) \<Rightarrow> (r, s\<lparr>conn_cache := c\<rparr>))"

definition no_warehouse :: exn where
  "no_warehouse = RuntimeError ''No SQL warehouse available.''"

definition run_query :: "sql_client \<Rightarrow> string \<Rightarrow> env \<Rightarrow> (exn + dataframe) \<times> sql_client" where
  "run_query s query e =
     (case get_warehouse_http_path s e of
        (Inl x, s1) \<Rightarrow> (Inl x, s1)
      | (Inr None, s1) \<Rightarrow> (Inl no_warehouse, s1)
      | (Inr (Some http_path), s1) \<Rightarrow>
          if http_path = [] then (Inl no_warehouse, s1)
          else
            (case get_connection s1 http_path e of
               (Inl x, s2) \<Rightarrow> (Inl x, s2)
             | (Inr conn, s2) \<Rightarrow> (cursor_execute e conn query, s2)))"




section \<open>pages/sql\_explorer.py\<close>

text \<open>
  \<open>run_sql(_, query, max_rows)\<close>. The editor's value is a string or \<open>None\<close>, the row
  field's value an integer or \<open>None\<close>. The statement handed to \<open>run_query\<close> is the local
  variable \<open>safe\<close>.
\<close>

definition is_blank :: "string option \<Rightarrow> bool" where
  "is_blank query = (case query of None \<Rightarrow> True | Some q \<Rightarrow> q = [] \<or> strip q = [])"

text \<open>\<open>max_rows or 500\<close>\<close>

definition row_cap :: "int option \<Rightarrow> int" where
  "row_cap max_rows = (case max_rows of None \<Rightarrow> 500 | Some n \<Rightarrow> if n = 0 then 500 else n)"

definition wrap_limit :: "string \<Rightarrow> int \<Rightarrow> string" where
  "wrap_limit safe n = ''SELECT * FROM ('' @ safe @ '') _q LIMIT '' @ str_int n"

definition safe_statement :: "string \<Rightarrow> int option \<Rightarrow> string" where
  "safe_statement query max_rows =
     (let safe = rstrip '';'' (strip query) in
      if \<not> contains ''limit'' (lower safe) then wrap_limit safe (row_cap max_rows) else safe)"

text \<open>
  \<open>df.to_csv(index=False)\<close> under base64 and \<open>df.to_json(date_format="iso", orient="split")\<close>
  are functions of the frame, given with the call.
\<close>

record codec =
  to_csv_b64 :: "dataframe \<Rightarrow> string"
  to_json :: "dataframe \<Rightarrow> string"

text \<open>\<open>df.select_dtypes(include="number")\<close> keeps the integer and floating columns.\<close>

fun is_number :: "dtype \<Rightarrow> bool" where
  "is_number Int64 = True"
| "is_number Float64 = True"
| "is_number Bool = False"
| "is_number Object = False"
| "is_number Datetime64 = False"

definition numeric_cols :: "dataframe \<Rightarrow> string list" where
  "numeric_cols df = map fst (filter (\<lambda>c. is_number (snd c)) (columns df))"

definition all_cols :: "dataframe \<Rightarrow> string list" where
  "all_cols df = map fst (columns df)"

definition chart_sign :: string where
  "chart_sign = [CHR 0xF0, CHR 0x9F, CHR 0x93, CHR 0x88]"

definition check_sign :: string where
  "check_sign = [CHR 0xE2, CHR 0x9C, CHR 0x85]"

definition down_sign :: string where
  "down_sign = [CHR 0xE2, CHR 0xAC, CHR 0x87, CHR 0xEF, CHR 0xB8, CHR 0x8F]"

definition viz_section :: "dataframe \<Rightarrow> component" where
  "viz_section df =
     (if numeric_cols df \<noteq> [] \<and> length (all_cols df) \<ge> 2 then
        Elem ''dbc.Card'' [(''className'', ''mt-3 shadow-sm'')]
          [Elem ''dbc.CardBody'' []
             [Elem ''html.H6'' [] [Text (chart_sign @ '' Auto Visualization'')],
              Elem ''dbc.Row'' [(''className'', ''mb-3'')]
                [Elem ''dbc.Col'' [(''md'', ''4'')]
                   [Elem ''html.Label'' [] [Text ''X axis''],
                    Dropdown ''viz-x'' (all_cols df) (hd (all_cols df))],
                 Elem ''dbc.Col'' [(''md'', ''4'')]
                   [Elem ''html.Label'' [] [Text ''Y axis''],
                    Dropdown ''viz-y'' (numeric_cols df) (hd (numeric_cols df))],
                 Elem ''dbc.Col'' [(''md'', ''4'')]
                   [Elem ''html.Label'' [] [Text ''Chart type''],
                    Dropdown ''viz-type'' [''Bar'', ''Line'', ''Scatter'', ''Area''] ''Bar'']],
              Elem ''html.Div'' [(''id'', ''viz-chart'')] []]]
      else Elem ''html.Div'' [] [])"

definition results_content :: "codec \<Rightarrow> dataframe \<Rightarrow> component list" where
  "results_content cd df =
     [Elem ''dbc.Alert'' [(''color'', ''success'')]
        [Text (check_sign @ '' '' @ format_thousands (length (records df)) @ '' rows returned'')],
      DataTable df,
      Elem ''html.A''
        [(''href'', ''data:text/csv;base64,'' @ to_csv_b64 cd df),
         (''download'', ''query_results.csv''),
         (''className'', ''btn btn-outline-secondary btn-sm mt-2 d-inline-block'')]
        [Text (down_sign @ '' Download CSV'')],
      viz_section df]"

definition enter_query_alert :: component where
  "enter_query_alert = Elem ''dbc.Alert'' [(''color'', ''warning'')] [Text ''Please enter a SQL query.'']"

text \<open>
  The two outputs are \<open>sql-results.children\<close> and \<open>sql-data-store.data\<close>. The second
  component of the result is the module state of \<open>utils/sql_client.py\<close> after the call.
\<close>

definition run_sql ::
  "codec \<Rightarrow> sql_client \<Rightarrow> env \<Rightarrow> string option \<Rightarrow> int option
     \<Rightarrow> (component list \<times> string option) \<times> sql_client" where
  "run_sql cd s e query max_rows =
     (case query of
        None \<Rightarrow> (([enter_query_alert], None), s)
      | Some q \<Rightarrow>
          if q = [] \<or> strip q = [] then (([enter_query_alert], None), s)
          else
            (case run_query s (safe_statement q max_rows) e of
               (Inl x, s') \<Rightarrow> (([error_alert (str_exn x)], None), s')
             | (Inr df, s') \<Rightarrow> ((results_content cd df, Some (to_json cd df)), s')))"

section \<open>pages/catalog.py\<close>

subsection \<open>The catalog service\<close>

record table_column =
  column_name :: string
  type_text :: "string option"
  type_name :: string
  nullable :: "bool option"

record table_info =
  table_type :: "string option"
  owner :: "string option"
  data_source_format :: "string option"
  comment :: "string option"
  table_columns :: "table_column list option"

text \<open>
  The service at the moment of one call: whether \<open>WorkspaceClient()\<close> can be built, and
  the three listings and the table lookup, each of which may raise. A listed object's
  \<open>name\<close> is a string or \<open>None\<close>.
\<close>

record catalog_env =
  new_workspace_client :: "exn option"
  catalogs_list :: "exn + string option list"
  schemas_list :: "string \<Rightarrow> exn + string option list"
  tables_list :: "string \<Rightarrow> string \<Rightarrow> exn + string option list"
  tables_get :: "string \<Rightarrow> exn + table_info"

type_synonym client_cache = "(unit \<times> unit) option"

text \<open>\<open>_client()\<close>, under \<open>lru_cache(maxsize=1)\<close>.\<close>

definition client :: "client_cache \<Rightarrow> catalog_env \<Rightarrow> (exn + unit) \<times> client_cache" where
  "client cache e =
     lru_cache1 (\<lambda>u. case new_workspace_client e of Some x \<Rightarrow> Inl x | None \<Rightarrow> Inr ()) cache ()"

subsection \<open>Helpers of the callbacks\<close>

text \<open>\<open>[c.name for c in ... if c.name]\<close>\<close>

definition truthy_names :: "string option list \<Rightarrow> string list" where
  "truthy_names xs = [n. Some n \<leftarrow> xs, n \<noteq> []]"

text \<open>\<open>x or default\<close> for an optional string.\<close>

definition or_default :: "string option \<Rightarrow> string \<Rightarrow> string" where
  "or_default x d = (case x of None \<Rightarrow> d | Some s \<Rightarrow> if s = [] then d else s)"

definition list_group :: "string \<Rightarrow> string list \<Rightarrow> component" where
  "list_group ty names =
     Elem ''dbc.ListGroup'' [(''flush'', ''True'')]
       (map (\<lambda>c. Elem ''dbc.ListGroupItem''
                    [(''id.type'', ty), (''id.index'', c), (''action'', ''True''),
                     (''style.fontSize'', ''0.9em''), (''style.cursor'', ''pointer'')]
                    [Text c])
            names)"

text \<open>
  \<open>dash.callback_context\<close>: \<open>ctx.triggered\<close> as the ids of the inputs that fired, in
  order; an id is a dictionary with \<open>type\<close> and \<open>index\<close>, or a string.
  \<open>ctx.triggered_id\<close> is the first of them.
\<close>

datatype component_id = DictId string string | StrId string

type_synonym callback_context = "component_id list"

text \<open>\<open>any(n_clicks)\<close>: a click count is \<open>None\<close> or a number.\<close>

definition py_any :: "nat option list \<Rightarrow> bool" where
  "py_any n_clicks = list_ex (\<lambda>n. case n of None \<Rightarrow> False | Some k \<Rightarrow> k \<noteq> 0) n_clicks"

text \<open>\<open>not catalog\<close> for the data of a store.\<close>

definition falsy :: "string option \<Rightarrow> bool" where
  "falsy x = (case x of None \<Rightarrow> True | Some s \<Rightarrow> s = [])"

subsection \<open>load\_catalogs\<close>

definition samples_first :: "string list \<Rightarrow> string list" where
  "samples_first catalogs =
     (if ''samples'' \<in> set catalogs then ''samples'' # filter (\<lambda>c. c \<noteq> ''samples'') catalogs
      else catalogs)"

definition load_catalogs :: "client_cache \<Rightarrow> catalog_env \<Rightarrow> (exn + component) \<times> client_cache" where
  "load_catalogs cache e =
     (case client cache e of
        (Inl x, cache') \<Rightarrow> (Inr (error_alert (str_exn x)), cache')
      | (Inr w, cache') \<Rightarrow>
          (case catalogs_list e of
             Inl x \<Rightarrow> (Inr (error_alert (str_exn x)), cache')
           | Inr cs \<Rightarrow> (Inr (list_group ''cat-item'' (samples_first (truthy_names cs))), cache')))"

subsection \<open>load\_schemas\<close>

text \<open>
  Outputs \<open>schema-list.children\<close> and \<open>store-catalog.data\<close>; input the click counts of
  all \<open>cat-item\<close>s. \<open>ctx.triggered_id["index"]\<close> stands before the \<open>try\<close>: on a string
  id it raises.
\<close>

definition load_schemas ::
  "client_cache \<Rightarrow> catalog_env \<Rightarrow> nat option list \<Rightarrow> callback_context
     \<Rightarrow> (exn + component update \<times> string update) \<times> client_cache" where
  "load_schemas cache e n_clicks ctx =
     (if ctx = [] \<or> \<not> py_any n_clicks then (Inr (NoUpdate, NoUpdate), cache)
      else
        (case hd ctx of
           StrId i \<Rightarrow> (Inl (Exception ''string indices must be integers''), cache)
         | DictId ty cat \<Rightarrow>
             (case client cache e of
                (Inl x, cache') \<Rightarrow> (Inr (Update (error_alert (str_exn x)), NoUpdate), cache')
              | (Inr w, cache') \<Rightarrow>
                  (case schemas_list e cat of
                     Inl x \<Rightarrow> (Inr (Update (error_alert (str_exn x)), NoUpdate), cache')
                   | Inr ss \<Rightarrow>
                       (Inr (Update (list_group ''schema-item'' (truthy_names ss)), Update cat),
                        cache')))))"

subsection \<open>load\_tables\<close>

text \<open>
  Outputs \<open>table-list.children\<close> and \<open>store-schema.data\<close>; inputs the click counts of all
  \<open>schema-item\<close>s and \<open>store-catalog.data\<close>.
\<close>

definition load_tables ::
  "client_cache \<Rightarrow> catalog_env \<Rightarrow> nat option list \<Rightarrow> string option \<Rightarrow> callback_context
     \<Rightarrow> (exn + component update \<times> string update) \<times> client_cache" where
  "load_tables cache e n_clicks catalog ctx =
     (case catalog of
        None \<Rightarrow> (Inr (NoUpdate, NoUpdate), cache)
      | Some cat \<Rightarrow>
          if ctx = [] \<or> cat = [] then (Inr (NoUpdate, NoUpdate), cache)
          else
            (case hd ctx of
               StrId i \<Rightarrow> (Inr (NoUpdate, NoUpdate), cache)
             | DictId ty schema \<Rightarrow>
                 if ty \<noteq> ''schema-item'' then (Inr (NoUpdate, NoUpdate), cache)
                 else
                   (case client cache e of
                      (Inl x, cache') \<Rightarrow>
                        (Inr (Update (error_alert (str_exn x)), NoUpdate), cache')
                    | (Inr w, cache') \<Rightarrow>
                        (case tables_list e cat schema of
                           Inl x \<Rightarrow> (Inr (Update (error_alert (str_exn x)), NoUpdate), cache')
                         | Inr ts \<Rightarrow>
                             (Inr (Update (list_group ''table-item'' (truthy_names ts)),
                                   Update schema),
                              cache')))))"

subsection \<open>show\_detail\<close>

definition cross_sign :: string where
  "cross_sign = [CHR 0xE2, CHR 0x9D, CHR 0x8C]"

text \<open>\<open>x.value if x else "n/a"\<close> for an optional enumeration.\<close>

definition value_or_na :: "string option \<Rightarrow> string" where
  "value_or_na x = (case x of None \<Rightarrow> ''n/a'' | Some v \<Rightarrow> v)"

definition table_row :: "string \<Rightarrow> string list \<Rightarrow> component" where
  "table_row cell cells = Elem ''tr'' [] (map (\<lambda>c. Elem cell [] [Text c]) cells)"

text \<open>\<open>dbc.Table.from_dataframe\<close> of the frame with one row per column of the table.\<close>

definition columns_table :: "table_column list \<Rightarrow> component" where
  "columns_table cols =
     Elem ''dbc.Table''
       [(''striped'', ''True''), (''bordered'', ''False''), (''hover'', ''True''),
        (''size'', ''sm''), (''responsive'', ''True'')]
       (table_row ''th'' [''Column'', ''Type'', ''Nullable''] #
        map (\<lambda>c. table_row ''td''
                    [column_name c,
                     or_default (type_text c) (type_name c),
                     if nullable c = Some True then check_sign else cross_sign])
            cols)"

definition detail_view :: "string \<Rightarrow> string \<Rightarrow> string \<Rightarrow> table_info \<Rightarrow> component" where
  "detail_view catalog schema table t =
     (let meta =
            [Elem ''html.P'' [] [Elem ''html.Strong'' [] [Text ''Type: ''],
                                 Elem ''html.Code'' [] [Text (value_or_na (table_type t))]],
             Elem ''html.P'' [] [Elem ''html.Strong'' [] [Text ''Owner: ''],
                                 Text (or_default (owner t) ''n/a'')],
             Elem ''html.P'' [] [Elem ''html.Strong'' [] [Text ''Format: ''],
                                 Elem ''html.Code'' [] [Text (value_or_na (data_source_format t))]]]
            @ (if falsy (comment t) then []
               else [Elem ''dbc.Alert'' [(''color'', ''info''), (''className'', ''py-2'')]
                       [Text (or_default (comment t) [])]]);
          cols = (case table_columns t of None \<Rightarrow> [] | Some cs \<Rightarrow> cs);
          cols_section =
            (if cols = [] then Elem ''html.Div'' [] []
             else Elem ''html.Div'' []
                    [Elem ''html.Strong'' [(''className'', ''d-block mt-2 mb-1'')] [Text ''Schema''],
                     columns_table cols]);
          col_names = (if cols = [] then ''*'' else join '', '' (map column_name cols));
          sql_ref =
            Elem ''html.Div'' []
              [Elem ''html.Strong'' [(''className'', ''d-block mt-2 mb-1'')] [Text ''SQL Reference''],
               Elem ''html.Pre''
                 [(''style.background'', ''#f5f5f5''), (''style.padding'', ''10px''),
                  (''style.borderRadius'', ''6px''), (''style.fontSize'', ''0.8em''),
                  (''style.overflowX'', ''auto'')]
                 [Text (''SELECT '' @ col_names @ ''\<newline>FROM '' @ catalog @ ''.'' @ schema @ ''.''
                        @ table @ ''\<newline>LIMIT 100'')]]
      in Elem ''html.Div'' [] (meta @ [cols_section, sql_ref]))"

text \<open>
  Output \<open>table-detail.children\<close>; inputs the click counts of all \<open>table-item\<close>s,
  \<open>store-catalog.data\<close> and \<open>store-schema.data\<close>.
\<close>

definition show_detail ::
  "client_cache \<Rightarrow> catalog_env \<Rightarrow> nat option list \<Rightarrow> string option \<Rightarrow> string option
     \<Rightarrow> callback_context \<Rightarrow> (exn + component update) \<times> client_cache" where
  "show_detail cache e n_clicks catalog schema ctx =
     (case (catalog, schema) of
        (Some cat, Some sch) \<Rightarrow>
          if ctx = [] \<or> cat = [] \<or> sch = [] then (Inr NoUpdate, cache)
          else
            (case hd ctx of
               StrId i \<Rightarrow> (Inr NoUpdate, cache)
             | DictId ty table \<Rightarrow>
                 if ty \<noteq> ''table-item'' then (Inr NoUpdate, cache)
                 else
                   (case client cache e of
                      (Inl x, cache') \<Rightarrow> (Inr (Update (error_alert (str_exn x))), cache')
                    | (Inr w, cache') \<Rightarrow>
                        (case tables_get e (cat @ ''.'' @ sch @ ''.'' @ table) of
                           Inl x \<Rightarrow> (Inr (Update (error_alert (str_exn x))), cache')
                         | Inr t \<Rightarrow> (Inr (Update (detail_view cat sch table t)), cache'))))
      | (c, s) \<Rightarrow> (Inr NoUpdate, cache))"

section \<open>pages/identity.py\<close>

subsection \<open>The request and the current-user service\<close>

record user =
  user_id :: "string option"
  display_name :: "string option"
  active :: "bool option"
  name :: "(string option \<times> string option) option"
  groups :: "string option list option"

text \<open>
  \<open>request.headers\<close> is the list of the request's headers, or raises \<open>RuntimeError\<close>
  outside a request context (\<open>None\<close> here). With a token, \<open>WorkspaceClient(token=...)\<close>,
  \<open>w.current_user.me()\<close>, \<open>w.get_workspace_id()\<close> and \<open>Config(token=...).host\<close> may
  each raise. \<open>name\<close> holds the given and the family name, a group its \<open>display\<close>.
\<close>

record identity_env =
  request_headers :: "(string \<times> string) list option"
  token_client :: "string \<Rightarrow> exn option"
  current_user_me :: "string \<Rightarrow> exn + user"
  get_workspace_id :: "string \<Rightarrow> exn + string"
  config_host :: "string \<Rightarrow> exn + string"

text \<open>\<open>headers.get(key, default)\<close>: the first header of that name, compared without case.\<close>

definition headers_get :: "(string \<times> string) list \<Rightarrow> string \<Rightarrow> string \<Rightarrow> string" where
  "headers_get hs key d =
     (case find (\<lambda>h. lower (fst h) = lower key) hs of None \<Rightarrow> d | Some h \<Rightarrow> snd h)"

subsection \<open>load\_identity\<close>

definition people_sign :: string where
  "people_sign = [CHR 0xF0, CHR 0x9F, CHR 0x91, CHR 0xA5]"

definition office_sign :: string where
  "office_sign = [CHR 0xF0, CHR 0x9F, CHR 0x8F, CHR 0xA2]"

definition clipboard_sign :: string where
  "clipboard_sign = [CHR 0xF0, CHR 0x9F, CHR 0x93, CHR 0x8B]"

definition magnifier_sign :: string where
  "magnifier_sign = [CHR 0xF0, CHR 0x9F, CHR 0x94, CHR 0x8E]"

definition arrow_sign :: string where
  "arrow_sign = [CHR 0xE2, CHR 0x86, CHR 0x92]"

text \<open>The value of one header read in the first \<open>try\<close>; \<open>""\<close> under \<open>except RuntimeError\<close>.\<close>

definition header_or_empty :: "identity_env \<Rightarrow> string \<Rightarrow> string" where
  "header_or_empty e key = (case request_headers e of None \<Rightarrow> [] | Some hs \<Rightarrow> headers_get hs key [])"

definition na :: "string \<Rightarrow> string" where
  "na s = (if s = [] then ''n/a'' else s)"

definition kpi_row :: "string \<Rightarrow> string \<Rightarrow> string \<Rightarrow> component" where
  "kpi_row email username ip =
     Elem ''dbc.Row'' []
       [Elem ''dbc.Col'' [(''md'', ''4''), (''className'', ''mb-3'')] [kpi_card ''Email'' (na email) RED],
        Elem ''dbc.Col'' [(''md'', ''4''), (''className'', ''mb-3'')] [kpi_card ''Username'' (na username) RED],
        Elem ''dbc.Col'' [(''md'', ''4''), (''className'', ''mb-3'')] [kpi_card ''IP'' (na ip) RED]]"

definition heading :: "string \<Rightarrow> string \<Rightarrow> component" where
  "heading title cls = Elem ''html.H5'' [(''className'', cls)] [Text title]"

definition account_heading :: component where
  "account_heading = heading (clipboard_sign @ '' Account Details'') ''mt-2 mb-3''"

definition groups_heading :: component where
  "groups_heading = heading (people_sign @ '' Group Memberships'') ''mt-4 mb-3''"

definition workspace_heading :: component where
  "workspace_heading = heading (office_sign @ '' Workspace'') ''mt-4 mb-2''"

definition obo_warning :: component where
  "obo_warning =
     Elem ''dbc.Alert'' [(''color'', ''warning'')]
       [Elem ''html.Strong'' [] [Text ''Basic info only. ''],
        Text (''Enable On-behalf-of-user authentication in app Settings '' @ arrow_sign
              @ '' Authorization to see full account details and group memberships.'')]"

definition optional_text :: "string option \<Rightarrow> component" where
  "optional_text x = (case x of None \<Rightarrow> Null | Some s \<Rightarrow> Text s)"

text \<open>\<open>str(x)\<close> of an optional string.\<close>

definition str_opt :: "string option \<Rightarrow> string" where
  "str_opt x = (case x of None \<Rightarrow> ''None'' | Some s \<Rightarrow> s)"

definition detail_rows :: "user \<Rightarrow> component list" where
  "detail_rows me =
     Elem ''dbc.Row'' [(''className'', ''mb-2'')]
       [Elem ''dbc.Col'' [(''md'', ''4'')]
          [Elem ''html.Strong'' [] [Text ''User ID: ''], Elem ''html.Code'' [] [Text (str_opt (user_id me))]],
        Elem ''dbc.Col'' [(''md'', ''4'')]
          [Elem ''html.Strong'' [] [Text ''Display Name: ''], optional_text (display_name me)],
        Elem ''dbc.Col'' [(''md'', ''4'')]
          [Elem ''html.Strong'' [] [Text ''Active: ''],
           Text (if active me = Some True then check_sign @ '' Yes'' else cross_sign @ '' No'')]]
     # (case name me of
          None \<Rightarrow> []
        | Some (given_name, family_name) \<Rightarrow>
            [Elem ''dbc.Row'' [(''className'', ''mb-2'')]
               [Elem ''dbc.Col'' [(''md'', ''4'')]
                  [Elem ''html.Strong'' [] [Text ''Given Name: ''], Text (or_default given_name ''n/a'')],
                Elem ''dbc.Col'' [(''md'', ''4'')]
                  [Elem ''html.Strong'' [] [Text ''Family Name: ''], Text (or_default family_name ''n/a'')]]])"

definition groups_section :: "user \<Rightarrow> component list" where
  "groups_section me =
     [groups_heading,
      (case groups me of
         None \<Rightarrow> Elem ''dbc.Alert'' [(''color'', ''info'')] [Text ''No group memberships returned.'']
       | Some gs \<Rightarrow>
           if gs = [] then Elem ''dbc.Alert'' [(''color'', ''info'')] [Text ''No group memberships returned.'']
           else Elem ''html.Div'' []
                  (map (\<lambda>g. Elem ''dbc.Badge''
                               [(''color'', ''primary''), (''className'', ''me-2 mb-2''), (''pill'', ''True'')]
                               [Text g])
                       (truthy_names gs)))]"

text \<open>The two inner \<open>try\<close> blocks, each with \<open>except Exception: pass\<close>.\<close>

definition workspace_section :: "identity_env \<Rightarrow> string \<Rightarrow> component list" where
  "workspace_section e token =
     [workspace_heading]
     @ (case get_workspace_id e token of
          Inl x \<Rightarrow> []
        | Inr ws_id \<Rightarrow>
            [Elem ''html.P'' [] [Elem ''html.Strong'' [] [Text ''Workspace ID: ''],
                                 Elem ''html.Code'' [] [Text ws_id]]])
     @ (case config_host e token of
          Inl x \<Rightarrow> []
        | Inr host \<Rightarrow>
            [Elem ''html.P'' [] [Elem ''html.Strong'' [] [Text ''Host: ''],
                                 Elem ''html.Code'' [] [Text host]]])"

text \<open>
  The branch \<open>if token:\<close>. The two calls that raise into the outer handler stand before
  the first \<open>sections.append\<close>, so the handler's alert is all the branch adds then.
\<close>

definition token_sections :: "identity_env \<Rightarrow> string \<Rightarrow> component list" where
  "token_sections e token =
     (case token_client e token of
        Some x \<Rightarrow> [error_alert (''Could not fetch detailed user info: '' @ str_exn x)]
      | None \<Rightarrow>
          (case current_user_me e token of
             Inl x \<Rightarrow> [error_alert (''Could not fetch detailed user info: '' @ str_exn x)]
           | Inr me \<Rightarrow>
               account_heading # detail_rows me @ groups_section me @ workspace_section e token))"

text \<open>
  The dictionary \<open>safe\<close>: the headers whose names hold neither word, a later header of
  a name replacing the value of an earlier one in its place.
\<close>

definition is_safe_name :: "string \<Rightarrow> bool" where
  "is_safe_name k = (\<not> contains ''token'' (lower k) \<and> \<not> contains ''secret'' (lower k))"

definition safe_headers :: "identity_env \<Rightarrow> (string \<times> string) list" where
  "safe_headers e =
     (case request_headers e of
        None \<Rightarrow> []
      | Some hs \<Rightarrow>
          foldl (\<lambda>safe h. AList.update (fst h) (snd h) safe) [] (filter (\<lambda>h. is_safe_name (fst h)) hs))"

text \<open>The lines of the pane, \<open>sorted(safe.items())\<close>.\<close>

definition shown_headers :: "identity_env \<Rightarrow> (string \<times> string) list" where
  "shown_headers e = sort_key fst (safe_headers e)"

definition raw_headers_pane :: "identity_env \<Rightarrow> component" where
  "raw_headers_pane e =
     Elem ''html.Details'' [(''className'', ''mt-3'')]
       [Elem ''html.Summary'' [(''style.cursor'', ''pointer''), (''style.fontWeight'', ''bold'')]
          [Text (magnifier_sign @ '' Raw HTTP Headers'')],
        Elem ''html.Pre''
          [(''style.background'', ''#f5f5f5''), (''style.padding'', ''12px''),
           (''style.borderRadius'', ''6px''), (''style.fontSize'', ''0.8em''),
           (''style.maxHeight'', ''300px''), (''style.overflow'', ''auto'')]
          [Text (join ''\<newline>'' (map (\<lambda>h. fst h @ '': '' @ snd h) (shown_headers e)))]]"

definition load_identity :: "identity_env \<Rightarrow> exn + component list" where
  "load_identity e =
     (let email = header_or_empty e ''X-Forwarded-Email'';
          username = header_or_empty e ''X-Forwarded-Preferred-Username'';
          user_id = header_or_empty e ''X-Forwarded-User'';
          ip = header_or_empty e ''X-Real-Ip'';
          token = header_or_empty e ''X-Forwarded-Access-Token''
      in Inr ([kpi_row email username ip, Elem ''html.Hr'' [] []]
              @ (if token \<noteq> [] then token_sections e token else [obo_warning])
              @ [Elem ''html.Hr'' [] [], raw_headers_pane e]))"

section \<open>pages/sales.py and pages/taxi.py\<close>

text \<open>
  The eight callbacks of the two pages have one shape: the whole body is a \<open>try\<close> that
  builds a statement from the inputs, calls \<open>run_query\<close> and renders the frame, with
  \<open>except Exception as e: return error_alert(str(e))\<close>. The bounds of a range slider
  are a list of integers and \<open>years[0]\<close>, \<open>years[1]\<close> raise on a shorter list. The
  rendering of a frame (reading its first row, formatting floats, building the figures)
  is a function given with the call, and may raise.
\<close>

definition index_error :: exn where
  "index_error = Exception ''list index out of range''"

definition try_view ::
  "(dataframe \<Rightarrow> exn + component) \<Rightarrow> sql_client \<Rightarrow> env \<Rightarrow> exn + string
     \<Rightarrow> (exn + component) \<times> sql_client" where
  "try_view render s e statement =
     (case statement of
        Inl x \<Rightarrow> (Inr (error_alert (str_exn x)), s)
      | Inr q \<Rightarrow>
          (case run_query s q e of
             (Inl x, s') \<Rightarrow> (Inr (error_alert (str_exn x)), s')
           | (Inr df, s') \<Rightarrow>
               (case render df of
                  Inl x \<Rightarrow> (Inr (error_alert (str_exn x)), s')
                | Inr c \<Rightarrow> (Inr c, s'))))"

subsection \<open>pages/sales.py\<close>

definition status_filter :: "string \<Rightarrow> string" where
  "status_filter status =
     (if status = ''ALL'' then [] else ''AND o.o_orderstatus = '' @ [CHR 0x27] @ status @ [CHR 0x27])"

definition sales_kpis_query :: "int list \<Rightarrow> string \<Rightarrow> exn + string" where
  "sales_kpis_query years status =
     (let sf = status_filter status in
      if length years < 2 then Inl index_error
      else Inr (''\<newline>'' @ ''            SELECT\<newline>''
        @ ''                COUNT(DISTINCT o.o_orderkey)  AS total_orders,\<newline>''
        @ ''                COUNT(DISTINCT o.o_custkey)   AS unique_customers,\<newline>''
        @ ''                ROUND(SUM(o.o_totalprice), 0) AS total_revenue,\<newline>''
        @ ''                ROUND(AVG(o.o_totalprice), 2) AS avg_order_value\<newline>''
        @ ''            FROM samples.tpch.orders o\<newline>''
        @ ''            WHERE YEAR(o.o_orderdate) BETWEEN '' @ str_int (years ! 0)
        @ '' AND '' @ str_int (years ! 1) @ ''\<newline>            '' @ sf
        @ ''\<newline>        ''))"

definition sales_trend_query :: "int list \<Rightarrow> string \<Rightarrow> exn + string" where
  "sales_trend_query years status =
     (let sf = status_filter status in
      if length years < 2 then Inl index_error
      else Inr (''\<newline>            SELECT DATE_TRUNC('' @ [CHR 0x27] @ ''month'' @ [CHR 0x27]
        @ '', o.o_orderdate) AS month,\<newline>''
        @ ''                   ROUND(SUM(o.o_totalprice), 0)      AS revenue\<newline>''
        @ ''            FROM samples.tpch.orders o\<newline>''
        @ ''            WHERE YEAR(o.o_orderdate) BETWEEN '' @ str_int (years ! 0)
        @ '' AND '' @ str_int (years ! 1) @ ''\<newline>            '' @ sf
        @ ''\<newline>            GROUP BY 1 ORDER BY 1\<newline>        ''))"

definition sales_region_query :: "int list \<Rightarrow> string \<Rightarrow> exn + string" where
  "sales_region_query years status =
     (let sf = status_filter status in
      if length years < 2 then Inl index_error
      else Inr (''\<newline>''
        @ ''            SELECT r.r_name AS region, n.n_name AS nation,\<newline>''
        @ ''                   ROUND(SUM(o.o_totalprice), 0) AS revenue\<newline>''
        @ ''            FROM samples.tpch.orders o\<newline>''
        @ ''            JOIN samples.tpch.customer c ON o.o_custkey   = c.c_custkey\<newline>''
        @ ''            JOIN samples.tpch.nation   n ON c.c_nationkey = n.n_nationkey\<newline>''
        @ ''            JOIN samples.tpch.region   r ON n.n_regionkey = r.r_regionkey\<newline>''
        @ ''            WHERE YEAR(o.o_orderdate) BETWEEN '' @ str_int (years ! 0)
        @ '' AND '' @ str_int (years ! 1) @ ''\<newline>            '' @ sf
        @ ''\<newline>            GROUP BY 1, 2 ORDER BY 1, 3 DESC\<newline>        ''))"

definition sales_customers_query :: "int list \<Rightarrow> string \<Rightarrow> int \<Rightarrow> exn + string" where
  "sales_customers_query years status topn =
     (let sf = status_filter status in
      if length years < 2 then Inl index_error
      else Inr (''\<newline>'' @ ''            SELECT c.c_name        AS customer,\<newline>''
        @ ''                   c.c_mktsegment  AS segment,\<newline>''
        @ ''                   COUNT(o.o_orderkey)           AS orders,\<newline>''
        @ ''                   ROUND(SUM(o.o_totalprice), 0) AS revenue,\<newline>''
        @ ''                   ROUND(AVG(o.o_totalprice), 2) AS avg_order\<newline>''
        @ ''            FROM samples.tpch.orders o\<newline>''
        @ ''            JOIN samples.tpch.customer c ON o.o_custkey = c.c_custkey\<newline>''
        @ ''            WHERE YEAR(o.o_orderdate) BETWEEN '' @ str_int (years ! 0)
        @ '' AND '' @ str_int (years ! 1) @ ''\<newline>            '' @ sf
        @ ''\<newline>            GROUP BY 1, 2 ORDER BY 4 DESC LIMIT '' @ str_int topn
        @ ''\<newline>        ''))"

definition sales_update_kpis ::
  "(dataframe \<Rightarrow> exn + component) \<Rightarrow> sql_client \<Rightarrow> env \<Rightarrow> int list \<Rightarrow> string
     \<Rightarrow> (exn + component) \<times> sql_client" where
  "sales_update_kpis render s e years status = try_view render s e (sales_kpis_query years status)"

definition update_trend ::
  "(dataframe \<Rightarrow> exn + component) \<Rightarrow> sql_client \<Rightarrow> env \<Rightarrow> int list \<Rightarrow> string
     \<Rightarrow> (exn + component) \<times> sql_client" where
  "update_trend render s e years status = try_view render s e (sales_trend_query years status)"

definition update_region ::
  "(dataframe \<Rightarrow> exn + component) \<Rightarrow> sql_client \<Rightarrow> env \<Rightarrow> int list \<Rightarrow> string
     \<Rightarrow> (exn + component) \<times> sql_client" where
  "update_region render s e years status = try_view render s e (sales_region_query years status)"

definition update_customers ::
  "(dataframe \<Rightarrow> exn + component) \<Rightarrow> sql_client \<Rightarrow> env \<Rightarrow> int list \<Rightarrow> string \<Rightarrow> int
     \<Rightarrow> (exn + component) \<times> sql_client" where
  "update_customers render s e years status topn =
     try_view render s e (sales_customers_query years status topn)"

subsection \<open>pages/taxi.py\<close>

text \<open>\<open>_where(fare, dist)\<close>\<close>

definition where_clause :: "int list \<Rightarrow> int list \<Rightarrow> exn + string" where
  "where_clause fare dist =
     (if length fare < 2 \<or> length dist < 2 then Inl index_error
      else Inr (''WHERE fare_amount BETWEEN '' @ str_int (fare ! 0) @ '' AND '' @ str_int (fare ! 1)
        @ ''  AND trip_distance BETWEEN '' @ str_int (dist ! 0) @ '' AND ''
        @ str_int (dist ! 1) @ ''  AND trip_distance > 0 AND fare_amount > 0''))"

definition taxi_kpis_query :: "int list \<Rightarrow> int list \<Rightarrow> exn + string" where
  "taxi_kpis_query fare dist =
     (case where_clause fare dist of
        Inl x \<Rightarrow> Inl x
      | Inr w \<Rightarrow> Inr (''\<newline>'' @ ''            SELECT COUNT(*) AS total_trips,\<newline>''
        @ ''                   ROUND(AVG(fare_amount), 2)  AS avg_fare,\<newline>''
        @ ''                   ROUND(AVG(trip_distance), 2) AS avg_distance,\<newline>''
        @ ''                   ROUND(AVG(fare_amount / NULLIF(trip_distance, 0)), 2) AS avg_fare_per_mile\<newline>''
        @ ''            FROM samples.nyctaxi.trips '' @ w @ ''\<newline>        ''))"

definition taxi_distributions_query :: "int list \<Rightarrow> int list \<Rightarrow> int \<Rightarrow> exn + string" where
  "taxi_distributions_query fare dist sample =
     (case where_clause fare dist of
        Inl x \<Rightarrow> Inl x
      | Inr w \<Rightarrow> Inr (''SELECT fare_amount, trip_distance FROM samples.nyctaxi.trips '' @ w
        @ '' LIMIT '' @ str_int sample))"

definition taxi_hourly_query :: "int list \<Rightarrow> int list \<Rightarrow> exn + string" where
  "taxi_hourly_query fare dist =
     (case where_clause fare dist of
        Inl x \<Rightarrow> Inl x
      | Inr w \<Rightarrow> Inr (''\<newline>''
        @ ''            SELECT HOUR(tpep_pickup_datetime)      AS hour_of_day,\<newline>''
        @ ''                   COUNT(*)                        AS trips,\<newline>''
        @ ''                   ROUND(AVG(fare_amount), 2)      AS avg_fare\<newline>''
        @ ''            FROM samples.nyctaxi.trips '' @ w
        @ ''\<newline>            GROUP BY 1 ORDER BY 1\<newline>        ''))"

definition taxi_scatter_query :: "int list \<Rightarrow> int list \<Rightarrow> int \<Rightarrow> exn + string" where
  "taxi_scatter_query fare dist sample =
     (case where_clause fare dist of
        Inl x \<Rightarrow> Inl x
      | Inr w \<Rightarrow> Inr (''\<newline>'' @ ''            SELECT fare_amount, trip_distance\<newline>''
        @ ''            FROM samples.nyctaxi.trips '' @ w
        @ ''\<newline>            ORDER BY RAND() LIMIT '' @ str_int (min sample 5000)
        @ ''\<newline>        ''))"

definition taxi_update_kpis ::
  "(dataframe \<Rightarrow> exn + component) \<Rightarrow> sql_client \<Rightarrow> env \<Rightarrow> int list \<Rightarrow> int list
     \<Rightarrow> (exn + component) \<times> sql_client" where
  "taxi_update_kpis render s e fare dist = try_view render s e (taxi_kpis_query fare dist)"

definition update_distributions ::
  "(dataframe \<Rightarrow> exn + component) \<Rightarrow> sql_client \<Rightarrow> env \<Rightarrow> int list \<Rightarrow> int list \<Rightarrow> int
     \<Rightarrow> (exn + component) \<times> sql_client" where
  "update_distributions render s e fare dist sample =
     try_view render s e (taxi_distributions_query fare dist sample)"

definition update_hourly ::
  "(dataframe \<Rightarrow> exn + component) \<Rightarrow> sql_client \<Rightarrow> env \<Rightarrow> int list \<Rightarrow> int list
     \<Rightarrow> (exn + component) \<times> sql_client" where
  "update_hourly render s e fare dist = try_view render s e (taxi_hourly_query fare dist)"

definition update_scatter ::
  "(dataframe \<Rightarrow> exn + component) \<Rightarrow> sql_client \<Rightarrow> env \<Rightarrow> int list \<Rightarrow> int list \<Rightarrow> int
     \<Rightarrow> (exn + component) \<times> sql_client" where
  "update_scatter render s e fare dist sample =
     try_view render s e (taxi_scatter_query fare dist sample)"

section \<open>Concurrent calls of a cached getter\<close>

text \<open>
  Modelled from \<open>functools\<close>, which is not part of the repository: the wrapper that
  \<open>lru_cache\<close> puts around a getter looks the key up under its lock, calls the wrapped
  function outside the lock, and under the lock again stores the result unless the key has
  been stored in the meantime; the library's documentation says that the wrapped function
  may be called more than once if another thread calls before the first call has been
  completed and cached. A caller of the getter is about to look up (\<open>Ready\<close>), has found
  nothing (\<open>Missed\<close>), has the outcome of the wrapped function (\<open>Called\<close>), or has
  returned (\<open>Returned\<close>). All callers use the key \<open>k\<close>; \<open>outcomes ! i\<close> is what the
  wrapped function does when caller \<open>i\<close> runs it; \<open>runs\<close> counts the runs of the wrapped
  function. A schedule names, step by step, the caller that moves.
\<close>

datatype 'v phase = Ready | Missed | Called "exn + 'v" | Returned "exn + 'v"

record ('k, 'v) shared =
  stored :: "('k \<times> 'v) option"
  runs :: nat
  callers :: "'v phase list"

definition conc_start :: "nat \<Rightarrow> ('k, 'v) shared" where
  "conc_start n = \<lparr>stored = None, runs = 0, callers = replicate n Ready\<rparr>"

definition conc_step :: "'k \<Rightarrow> (exn + 'v) list \<Rightarrow> ('k, 'v) shared \<Rightarrow> nat \<Rightarrow> ('k, 'v) shared" where
  "conc_step k outcomes st i =
     (if length (callers st) \<le> i \<or> length outcomes \<le> i then st
      else
        (case callers st ! i of
           Ready \<Rightarrow>
             (case stored st of
                None \<Rightarrow> st\<lparr>callers := (callers st)[i := Missed]\<rparr>
              | Some (k', v) \<Rightarrow>
                  if k' = k then st\<lparr>callers := (callers st)[i := Returned (Inr v)]\<rparr>
                  else st\<lparr>callers := (callers st)[i := Missed]\<rparr>)
         | Missed \<Rightarrow> st\<lparr>runs := runs st + 1, callers := (callers st)[i := Called (outcomes ! i)]\<rparr>
         | Called (Inl x) \<Rightarrow> st\<lparr>callers := (callers st)[i := Returned (Inl x)]\<rparr>
         | Called (Inr v) \<Rightarrow>
             (case stored st of
                None \<Rightarrow> st\<lparr>stored := Some (k, v), callers := (callers st)[i := Returned (Inr v)]\<rparr>
              | Some (k', v') \<Rightarrow>
                  if k' = k then st\<lparr>callers := (callers st)[i := Returned (Inr v)]\<rparr>
                  else st\<lparr>stored := Some (k, v), callers := (callers st)[i := Returned (Inr v)]\<rparr>)
         | Returned r \<Rightarrow> st))"

definition run_schedule ::
  "'k \<Rightarrow> (exn + 'v) list \<Rightarrow> nat list \<Rightarrow> ('k, 'v) shared \<Rightarrow> ('k, 'v) shared" where
  "run_schedule k outcomes schedule st = foldl (conc_step k outcomes) st schedule"

text \<open>
  Concurrent first calls of the two getters: one caller per environment, the cache empty.
\<close>

definition concurrent_get_connection :: "string \<Rightarrow> env list \<Rightarrow> nat list \<Rightarrow> (string, conn) shared" where
  "concurrent_get_connection http_path envs schedule =
     run_schedule http_path (map (\<lambda>e. sql_connect e http_path) envs) schedule
       (conc_start (length envs))"

definition concurrent_get_warehouse_http_path ::
  "env list \<Rightarrow> nat list \<Rightarrow> (unit, string option) shared" where
  "concurrent_get_warehouse_http_path envs schedule =
     run_schedule () (map (\<lambda>e. Inr (get_warehouse_http_path_body e)) envs) schedule
       (conc_start (length envs))"

section \<open>Notions of the statements\<close>


text \<open>The drop-downs of a component tree, each with its id and its options.\<close>

fun dropdowns :: "component \<Rightarrow> (string \<times> string list) list" where
  "dropdowns (Dropdown i opts v) = [(i, opts)]"
| "dropdowns (Elem t ps cs) = concat (map dropdowns cs)"
| "dropdowns Null = []"
| "dropdowns (Text s) = []"
| "dropdowns (DataTable df) = []"

definition dropdown_options :: "string \<Rightarrow> component \<Rightarrow> string list option" where
  "dropdown_options i c = map_of (dropdowns c) i"

text \<open>The exception raised inside the \<open>try\<close> of a view of the sales or the taxi page, if any.\<close>

definition view_exception ::
  "(dataframe \<Rightarrow> exn + component) \<Rightarrow> sql_client \<Rightarrow> env \<Rightarrow> exn + string \<Rightarrow> exn option" where
  "view_exception render s e statement =
     (case statement of
        Inl x \<Rightarrow> Some x
      | Inr q \<Rightarrow>
          (case fst (run_query s q e) of
             Inl x \<Rightarrow> Some x
           | Inr df \<Rightarrow> (case render df of Inl x \<Rightarrow> Some x | Inr c \<Rightarrow> None)))"

text \<open>
  The exception raised inside the \<open>try\<close> of a callback of the catalog page, if any: by
  \<open>_client()\<close>, or else by the listing or lookup.
\<close>

definition catalog_exception :: "client_cache \<Rightarrow> catalog_env \<Rightarrow> exn + 'a \<Rightarrow> exn option" where
  "catalog_exception c e listing =
     (case fst (client c e) of
        Inl x \<Rightarrow> Some x
      | Inr u \<Rightarrow> (case listing of Inl x \<Rightarrow> Some x | Inr v \<Rightarrow> None))"

text \<open>
  The warehouse path that a call works with: the memoized one, or else the one that
  discovery finds in the call's environment.
\<close>

definition cached_path :: "sql_client \<Rightarrow> env \<Rightarrow> string option" where
  "cached_path s e = (case path_cache s of Some (u, v) \<Rightarrow> v | None \<Rightarrow> get_warehouse_http_path_body e)"

text \<open>
  Two states of \<open>utils/sql_client.py\<close> give the same answers in an environment when
  \<open>run_query\<close> returns the same for every statement; two states of the catalog page's
  client cache, when \<open>_client()\<close> returns the same.
\<close>

definition same_answers :: "sql_client \<Rightarrow> sql_client \<Rightarrow> env \<Rightarrow> bool" where
  "same_answers s s' e = (\<forall>q. fst (run_query s' q e) = fst (run_query s q e))"

definition same_client :: "client_cache \<Rightarrow> client_cache \<Rightarrow> catalog_env \<Rightarrow> bool" where
  "same_client c c' e = (fst (client c' e) = fst (client c e))"

text \<open>
  Concurrent callers of a cached getter. A caller has moved on when it has run the
  wrapped function or has returned. At every step of a schedule: there are as many
  callers as outcomes; the wrapped function has run at most once for each caller that
  has moved on; a stored entry has the callers' key and the value of some caller's
  outcome; a caller that has run the wrapped function holds its own outcome; a caller
  that has returned has returned its own outcome or the stored value.
\<close>

definition moved_on :: "'v phase \<Rightarrow> nat" where
  "moved_on p = (case p of Ready \<Rightarrow> 0 | Missed \<Rightarrow> 0 | Called r \<Rightarrow> 1 | Returned r \<Rightarrow> 1)"

definition race_invariant :: "'k \<Rightarrow> (exn + 'v) list \<Rightarrow> ('k, 'v) shared \<Rightarrow> bool" where
  "race_invariant k outcomes st =
     (length (callers st) = length outcomes
      \<and> runs st \<le> sum_list (map moved_on (callers st))
      \<and> (\<forall>k' v. stored st = Some (k', v) \<longrightarrow> k' = k \<and> Inr v \<in> set outcomes)
      \<and> (\<forall>i r. i < length outcomes \<and> callers st ! i = Called r \<longrightarrow> r = outcomes ! i)
      \<and> (\<forall>i r. i < length outcomes \<and> callers st ! i = Returned r \<longrightarrow>
            r = outcomes ! i \<or> (\<exists>v. r = Inr v \<and> stored st = Some (k, v))))"

text \<open>What this gives of the state that a schedule ends in.\<close>

definition race_outcome :: "'k \<Rightarrow> (exn + 'v) list \<Rightarrow> ('k, 'v) shared \<Rightarrow> bool" where
  "race_outcome k outcomes st =
     (length (callers st) = length outcomes
      \<and> runs st \<le> length outcomes
      \<and> (\<forall>k' v. stored st = Some (k', v) \<longrightarrow> k' = k \<and> Inr v \<in> set outcomes)
      \<and> (\<forall>i r. i < length outcomes \<and> callers st ! i = Returned r \<longrightarrow>
            r = outcomes ! i \<or> (\<exists>v. r = Inr v \<and> stored st = Some (k, v))))"

text \<open>
  The state of the shared cache once a first call has been completed alone and has stored
  \<open>v\<close>: one run, and every caller is about to look up or has returned \<open>v\<close>.
\<close>

definition settled :: "'k \<Rightarrow> 'v \<Rightarrow> nat \<Rightarrow> ('k, 'v) shared \<Rightarrow> bool" where
  "settled k v n st =
     (stored st = Some (k, v) \<and> runs st = 1 \<and> length (callers st) = n
      \<and> (\<forall>i < n. callers st ! i = Ready \<or> callers st ! i = Returned (Inr v)))"

text \<open>The texts and the constructor names of a component tree, in order.\<close>

fun texts :: "component \<Rightarrow> string list" where
  "texts (Text s) = [s]"
| "texts (Elem t ps cs) = concat (map texts cs)"
| "texts Null = []"
| "texts (Dropdown i opts v) = []"
| "texts (DataTable df) = []"

fun tags :: "component \<Rightarrow> string list" where
  "tags (Elem t ps cs) = t # concat (map tags cs)"
| "tags (Dropdown i opts v) = [''dcc.Dropdown'']"
| "tags (DataTable df) = [''dash_table.DataTable'']"
| "tags Null = []"
| "tags (Text s) = []"






section \<open>Example inputs\<close>

definition no_frame :: dataframe where
  "no_frame = \<lparr>columns = [], records = []\<rparr>"

definition env_conn :: "conn \<Rightarrow> env" where
  "env_conn n =
     \<lparr>workspace_client = None, getenv_warehouse_id = Some ''abc'', warehouses_list = Inr [],
      sql_connect = (\<lambda>p. Inr n), cursor_execute = (\<lambda>c q. Inr no_frame)\<rparr>"

definition env_down :: env where
  "env_down =
     \<lparr>workspace_client = Some (Exception ''cannot configure default credentials''),
      getenv_warehouse_id = Some ''abc'', warehouses_list = Inr [],
      sql_connect = (\<lambda>p. Inr 1), cursor_execute = (\<lambda>c q. Inr no_frame)\<rparr>"

definition env_refused :: env where
  "env_refused =
     \<lparr>workspace_client = None, getenv_warehouse_id = Some ''abc'', warehouses_list = Inr [],
      sql_connect = (\<lambda>p. Inl (Exception ''connection refused'')),
      cursor_execute = (\<lambda>c q. Inr no_frame)\<rparr>"

definition env_listing :: env where
  "env_listing =
     \<lparr>workspace_client = None, getenv_warehouse_id = None,
      warehouses_list = Inr
        [\<lparr>wh_id = ''w1'', enable_serverless_compute = None, state = Some ''RUNNING''\<rparr>,
         \<lparr>wh_id = ''w2'', enable_serverless_compute = Some True, state = Some ''STOPPED''\<rparr>,
         \<lparr>wh_id = ''w3'', enable_serverless_compute = Some True, state = Some ''RUNNING''\<rparr>],
      sql_connect = (\<lambda>p. Inr 1), cursor_execute = (\<lambda>c q. Inr no_frame)\<rparr>"


definition orders_frame :: dataframe where
  "orders_frame =
     \<lparr>columns = [(''o_orderstatus'', Object), (''orders'', Int64)],
      records = [[''F'', ''7309184''], [''O'', ''7307464''], [''P'', ''383352'']]\<rparr>"

definition samples_env :: catalog_env where
  "samples_env =
     \<lparr>new_workspace_client = None,
      catalogs_list = Inr [Some ''main'', None, Some ''samples''],
      schemas_list = (\<lambda>c. if c = ''samples'' then Inr [Some ''nyctaxi'', Some ''tpch''] else Inr []),
      tables_list = (\<lambda>c s. if c = ''samples'' \<and> s = ''nyctaxi'' then Inr [Some ''trips'']
                             else if c = ''samples'' \<and> s = ''tpch''
                             then Inr [Some ''orders'', Some ''customer'']
                             else Inl (Exception ''SCHEMA_DOES_NOT_EXIST'')),
      tables_get = (\<lambda>n. if n = ''samples.nyctaxi.trips''
                         then Inr \<lparr>table_type = Some ''MANAGED'', owner = None,
                                   data_source_format = Some ''DELTA'', comment = None,
                                   table_columns = None\<rparr>
                         else Inl (Exception ''TABLE_DOES_NOT_EXIST''))\<rparr>"

definition anonymous_request :: identity_env where
  "anonymous_request =
     \<lparr>request_headers = Some [(''Host'', ''app.example.com''), (''X-Real-Ip'', ''10.0.0.7''),
                               (''X-Api-Secret'', ''s3''), (''Accept'', ''*/*'')],
      token_client = (\<lambda>t. None),
      current_user_me = (\<lambda>t. Inl (Exception ''not reached'')),
      get_workspace_id = (\<lambda>t. Inl (Exception ''not reached'')),
      config_host = (\<lambda>t. Inl (Exception ''not reached''))\<rparr>"

definition delegated_request :: identity_env where
  "delegated_request =
     \<lparr>request_headers = Some [(''Host'', ''app.example.com''),
                               (''X-Forwarded-Email'', ''ada@example.com''),
                               (''X-Forwarded-Access-Token'', ''dapi-123''),
                               (''Accept'', ''*/*''), (''Accept'', ''text/html'')],
      token_client = (\<lambda>t. None),
      current_user_me = (\<lambda>t. Inr \<lparr>user_id = Some ''42'', display_name = Some ''Ada'',
                                     active = Some True, name = None,
                                     groups = Some [Some ''admins'', None]\<rparr>),
      get_workspace_id = (\<lambda>t. Inr ''1234''),
      config_host = (\<lambda>t. Inl (Exception ''no host''))\<rparr>"

definition failing_render :: "dataframe \<Rightarrow> exn + component" where
  "failing_render df = Inl (Exception ''single positional indexer is out-of-bounds'')"

definition plain_codec :: codec where
  "plain_codec = \<lparr>to_csv_b64 = (\<lambda>df. []), to_json = (\<lambda>df. [])\<rparr>"

definition broken_catalog :: catalog_env where
  "broken_catalog =
     \<lparr>new_workspace_client = None,
      catalogs_list = Inl (Exception ''PERMISSION_DENIED''),
      schemas_list = (\<lambda>c. Inl (Exception ''CATALOG_DOES_NOT_EXIST'')),
      tables_list = (\<lambda>c s. Inl (Exception ''SCHEMA_DOES_NOT_EXIST'')),
      tables_get = (\<lambda>n. Inl (Exception ''TABLE_DOES_NOT_EXIST''))\<rparr>"





section \<open>The resource cache and warehouse discovery\<close>

lemma lru_cache1_hit: "lru_cache1 f (Some (k, v)) k = (Inr v, Some (k, v))"
  by (simp add: lru_cache1_def)

lemma lru_cache1_miss:
  "\<forall>v. cache \<noteq> Some (k, v) \<Longrightarrow>
   lru_cache1 f cache k = (case f k of Inl x \<Rightarrow> (Inl x, cache) | Inr v' \<Rightarrow> (Inr v', Some (k, v')))"
  by (auto simp: lru_cache1_def split: option.splits)

lemma find_filter: "find P xs = (case filter P xs of [] \<Rightarrow> None | x # ys \<Rightarrow> Some x)"
  by (induction xs) auto

lemma discover_from_listing_find:
  "warehouses_list e = Inr whs \<Longrightarrow>
   discover_from_listing e =
     Inr (case find is_serverless whs of
            Some w \<Rightarrow> Some (warehouse_path (wh_id w))
          | None \<Rightarrow>
              (case find is_running whs of
                 Some w \<Rightarrow> Some (warehouse_path (wh_id w))
               | None \<Rightarrow> (case whs of [] \<Rightarrow> None | w # ws \<Rightarrow> Some (warehouse_path (wh_id w)))))"
  by (simp add: discover_from_listing_def find_filter Let_def split: list.splits)

lemma get_path_hit:
  "path_cache s = Some ((), v) \<Longrightarrow> get_warehouse_http_path s e = (Inr v, s)"
  by (simp add: get_warehouse_http_path_def lru_cache1_hit)

lemma get_path_miss:
  "path_cache s = None \<Longrightarrow>
   get_warehouse_http_path s e =
     (Inr (get_warehouse_http_path_body e), s\<lparr>path_cache := Some ((), get_warehouse_http_path_body e)\<rparr>)"
  by (simp add: get_warehouse_http_path_def lru_cache1_def)


lemma get_connection_miss:
  "\<forall>c. conn_cache s \<noteq> Some (p, c) \<Longrightarrow>
   get_connection s p e =
     (case sql_connect e p of Inl x \<Rightarrow> (Inl x, s) | Inr c \<Rightarrow> (Inr c, s\<lparr>conn_cache := Some (p, c)\<rparr>))"
  by (simp add: get_connection_def lru_cache1_miss split: sum.splits)

text \<open>
  Claim C2, as amended. \<open>WorkspaceClient()\<close> is built before the override is read, inside
  the \<open>try\<close>: if it raises, the result is \<open>None\<close> whatever the override. If it is built,
  an override that is set and not empty gives its path, whatever the listing is or
  raises. With the override unset or empty, the result is the path of the first
  serverless warehouse of the listing, else of the first \<open>RUNNING\<close> one, else of the
  first one, else \<open>None\<close>; a listing that raises gives \<open>None\<close>. On a first call with the
  result \<open>None\<close>, \<open>run_query\<close> raises "No SQL warehouse available.".
\<close>

theorem warehouse_discovery_chain:
  "(workspace_client e = Some x \<longrightarrow> get_warehouse_http_path_body e = None)
   \<and> (workspace_client e = None \<and> getenv_warehouse_id e = Some wid \<and> wid \<noteq> [] \<longrightarrow>
        get_warehouse_http_path_body e = Some (warehouse_path wid))
   \<and> (workspace_client e = None \<and> (getenv_warehouse_id e = None \<or> getenv_warehouse_id e = Some [])
        \<and> warehouses_list e = Inr whs \<longrightarrow>
        get_warehouse_http_path_body e =
          (case find is_serverless whs of
             Some w \<Rightarrow> Some (warehouse_path (wh_id w))
           | None \<Rightarrow>
               (case find is_running whs of
                  Some w \<Rightarrow> Some (warehouse_path (wh_id w))
                | None \<Rightarrow> (case whs of [] \<Rightarrow> None | w # ws \<Rightarrow> Some (warehouse_path (wh_id w))))))
   \<and> ((getenv_warehouse_id e = None \<or> getenv_warehouse_id e = Some []) \<and> warehouses_list e = Inl x' \<longrightarrow>
        get_warehouse_http_path_body e = None)
   \<and> (path_cache s = None \<and> get_warehouse_http_path_body e = None \<longrightarrow>
        fst (run_query s q e) = Inl no_warehouse)"
proof (intro conjI impI)
  assume "workspace_client e = Some x"
  then show "get_warehouse_http_path_body e = None"
    by (simp add: get_warehouse_http_path_body_def discover_try_def)
next
  assume "workspace_client e = None \<and> getenv_warehouse_id e = Some wid \<and> wid \<noteq> []"
  then show "get_warehouse_http_path_body e = Some (warehouse_path wid)"
    by (simp add: get_warehouse_http_path_body_def discover_try_def)
next
  assume a: "workspace_client e = None \<and> (getenv_warehouse_id e = None \<or> getenv_warehouse_id e = Some [])
        \<and> warehouses_list e = Inr whs"
  then have "discover_try e = discover_from_listing e"
    by (auto simp: discover_try_def)
  with a show "get_warehouse_http_path_body e =
          (case find is_serverless whs of
             Some w \<Rightarrow> Some (warehouse_path (wh_id w))
           | None \<Rightarrow>
               (case find is_running whs of
                  Some w \<Rightarrow> Some (warehouse_path (wh_id w))
                | None \<Rightarrow> (case whs of [] \<Rightarrow> None | w # ws \<Rightarrow> Some (warehouse_path (wh_id w)))))"
    by (simp add: get_warehouse_http_path_body_def discover_from_listing_find)
next
  assume a: "(getenv_warehouse_id e = None \<or> getenv_warehouse_id e = Some []) \<and> warehouses_list e = Inl x'"
  then have "discover_from_listing e = Inl x'"
    by (simp add: discover_from_listing_def)
  with a show "get_warehouse_http_path_body e = None"
    by (auto simp: get_warehouse_http_path_body_def discover_try_def split: option.splits)
next
  assume "path_cache s = None \<and> get_warehouse_http_path_body e = None"
  then show "fst (run_query s q e) = Inl no_warehouse"
    by (simp add: run_query_def get_path_miss)
qed

theorem warehouse_discovery_chain_witness:
  "get_warehouse_http_path_body (env_conn 1) = Some ''/sql/1.0/warehouses/abc''
   \<and> get_warehouse_http_path_body env_listing = Some ''/sql/1.0/warehouses/w2''
   \<and> get_warehouse_http_path_body env_down = None
   \<and> fst (run_query sql_client_init ''SELECT 1'' env_down) = Inl (RuntimeError ''No SQL warehouse available.'')"
  using warehouse_discovery_chain [of "env_conn 1" undefined "''abc''" "[]" undefined sql_client_init undefined]
    warehouse_discovery_chain [of env_listing undefined undefined
      "[\<lparr>wh_id = ''w1'', enable_serverless_compute = None, state = Some ''RUNNING''\<rparr>,
         \<lparr>wh_id = ''w2'', enable_serverless_compute = Some True, state = Some ''STOPPED''\<rparr>,
         \<lparr>wh_id = ''w3'', enable_serverless_compute = Some True, state = Some ''RUNNING''\<rparr>]"
      undefined sql_client_init undefined]
    warehouse_discovery_chain [of env_down "Exception ''cannot configure default credentials''" undefined "[]" undefined
       sql_client_init "''SELECT 1''"]
  by (simp add: env_conn_def env_listing_def env_down_def is_serverless_def is_running_def warehouse_path_def
      sql_client_init_def no_warehouse_def)

text \<open>
  Claim C2 as stated fails: with the override set to \<open>abc\<close> and a client that cannot be
  built, discovery returns \<open>None\<close>, not the override's path.
\<close>

theorem override_counterexample:
  "getenv_warehouse_id env_down = Some ''abc''
   \<and> fst (get_warehouse_http_path sql_client_init env_down) = Inr None"
  by (simp add: env_down_def get_warehouse_http_path_def lru_cache1_def sql_client_init_def
      get_warehouse_http_path_body_def discover_try_def)

lemma get_path_conn_cache: "conn_cache (snd (get_warehouse_http_path s e)) = conn_cache s"
  by (cases "path_cache s") (auto simp: get_path_miss get_path_hit)

















text \<open>
  Claim C1, as amended. \<open>get_connection\<close>: when no connection is stored for the path and
  connecting raises, the exception reaches the caller, the state is unchanged, and the
  next call connects again, storing the connection if that succeeds.
  \<open>get_warehouse_http_path\<close>: when nothing is stored and discovery raises, the exception
  is swallowed, the call returns \<open>None\<close> and stores it, and every later call returns the
  stored \<open>None\<close> without running discovery.
\<close>

theorem failure_not_cached:
  "((\<forall>c. conn_cache s \<noteq> Some (p, c)) \<and> sql_connect e p = Inl x \<longrightarrow>
      get_connection s p e = (Inl x, s)
      \<and> get_connection (snd (get_connection s p e)) p e' =
          (case sql_connect e' p of
             Inl x' \<Rightarrow> (Inl x', s)
           | Inr c \<Rightarrow> (Inr c, s\<lparr>conn_cache := Some (p, c)\<rparr>)))
   \<and> (path_cache s = None \<and> discover_try e = Inl x \<longrightarrow>
        get_warehouse_http_path s e = (Inr None, s\<lparr>path_cache := Some ((), None)\<rparr>)
        \<and> get_warehouse_http_path (snd (get_warehouse_http_path s e)) e' =
            (Inr None, s\<lparr>path_cache := Some ((), None)\<rparr>))"
proof (intro conjI impI)
  assume a: "(\<forall>c. conn_cache s \<noteq> Some (p, c)) \<and> sql_connect e p = Inl x"
  then show g: "get_connection s p e = (Inl x, s)" by (simp add: get_connection_miss)
  from a show "get_connection (snd (get_connection s p e)) p e' =
          (case sql_connect e' p of
             Inl x' \<Rightarrow> (Inl x', s)
           | Inr c \<Rightarrow> (Inr c, s\<lparr>conn_cache := Some (p, c)\<rparr>))"
    by (simp add: g get_connection_miss)
next
  assume a: "path_cache s = None \<and> discover_try e = Inl x"
  then show g: "get_warehouse_http_path s e = (Inr None, s\<lparr>path_cache := Some ((), None)\<rparr>)"
    by (simp add: get_path_miss get_warehouse_http_path_body_def)
  show "get_warehouse_http_path (snd (get_warehouse_http_path s e)) e' =
            (Inr None, s\<lparr>path_cache := Some ((), None)\<rparr>)"
    by (simp add: g get_path_hit)
qed

theorem failure_not_cached_witness:
  "get_connection sql_client_init ''/a'' env_refused = (Inl (Exception ''connection refused''), sql_client_init)
   \<and> get_connection (snd (get_connection sql_client_init ''/a'' env_refused)) ''/a'' (env_conn 7)
       = (Inr 7, sql_client_init\<lparr>conn_cache := Some (''/a'', 7)\<rparr>)
   \<and> get_warehouse_http_path sql_client_init env_down
       = (Inr None, sql_client_init\<lparr>path_cache := Some ((), None)\<rparr>)
   \<and> get_warehouse_http_path (snd (get_warehouse_http_path sql_client_init env_down)) (env_conn 1)
       = (Inr None, sql_client_init\<lparr>path_cache := Some ((), None)\<rparr>)"
proof -
  have h1: "(\<forall>c. conn_cache sql_client_init \<noteq> Some (''/a'', c))
            \<and> sql_connect env_refused ''/a'' = Inl (Exception ''connection refused'')"
    by (simp add: sql_client_init_def env_refused_def)
  have h2: "path_cache sql_client_init = None
            \<and> discover_try env_down = Inl (Exception ''cannot configure default credentials'')"
    by (simp add: sql_client_init_def env_down_def discover_try_def)
  have r1: "get_connection sql_client_init ''/a'' env_refused
              = (Inl (Exception ''connection refused''), sql_client_init)
            \<and> get_connection (snd (get_connection sql_client_init ''/a'' env_refused)) ''/a'' (env_conn 7)
              = (case sql_connect (env_conn 7) ''/a'' of
                   Inl x' \<Rightarrow> (Inl x', sql_client_init)
                 | Inr c \<Rightarrow> (Inr c, sql_client_init\<lparr>conn_cache := Some (''/a'', c)\<rparr>))"
    using failure_not_cached [of sql_client_init "''/a''" env_refused
        "Exception ''connection refused''" "env_conn 7"] h1
    by blast
  have r2: "get_warehouse_http_path sql_client_init env_down
              = (Inr None, sql_client_init\<lparr>path_cache := Some ((), None)\<rparr>)
            \<and> get_warehouse_http_path (snd (get_warehouse_http_path sql_client_init env_down)) (env_conn 1)
              = (Inr None, sql_client_init\<lparr>path_cache := Some ((), None)\<rparr>)"
    using failure_not_cached [of sql_client_init _ env_down
        "Exception ''cannot configure default credentials''" "env_conn 1"] h2
    by blast
  have "sql_connect (env_conn 7) ''/a'' = Inr 7" by (simp add: env_conn_def)
  then have r1': "(case sql_connect (env_conn 7) ''/a'' of
                   Inl x' \<Rightarrow> (Inl x', sql_client_init)
                 | Inr c \<Rightarrow> (Inr c, sql_client_init\<lparr>conn_cache := Some (''/a'', c)\<rparr>))
               = (Inr 7, sql_client_init\<lparr>conn_cache := Some (''/a'', 7)\<rparr>)"
    by (simp only: sum.case)
  from r1 r1' r2 show ?thesis by metis
qed

text \<open>
  Claim C1 as stated fails for \<open>get_warehouse_http_path\<close>: a first call whose discovery
  raises returns \<open>None\<close> to the caller and stores it; a second call, in an environment
  where discovery would succeed, still returns \<open>None\<close>.
\<close>

theorem cached_failure_counterexample:
  "fst (get_warehouse_http_path sql_client_init env_down) = Inr None
   \<and> path_cache (snd (get_warehouse_http_path sql_client_init env_down)) = Some ((), None)
   \<and> get_warehouse_http_path_body (env_conn 1) = Some ''/sql/1.0/warehouses/abc''
   \<and> fst (get_warehouse_http_path (snd (get_warehouse_http_path sql_client_init env_down)) (env_conn 1))
       = Inr None"
  by (simp add: get_warehouse_http_path_def lru_cache1_def sql_client_init_def env_down_def env_conn_def
      get_warehouse_http_path_body_def discover_try_def warehouse_path_def)

section \<open>The SQL explorer\<close>










































lemma dropdowns_viz_section:
  "dropdowns (viz_section df) =
     (if numeric_cols df \<noteq> [] \<and> 2 \<le> length (all_cols df)
      then [(''viz-x'', all_cols df), (''viz-y'', numeric_cols df),
            (''viz-type'', [''Bar'', ''Line'', ''Scatter'', ''Area''])]
      else [])"
  by (simp add: viz_section_def)

text \<open>
  Claim C7. The visualization section has drop-downs exactly when the frame has a numeric
  column and at least two columns; otherwise it is an empty \<open>Div\<close>. When it has them,
  the options of \<open>viz-y\<close> are the names of the numeric columns, in order, and the
  options of \<open>viz-x\<close> are the names of all columns. The section is the last component of
  what \<open>run_sql\<close> returns for a frame.
\<close>

theorem viz_axis_options:
  "(dropdowns (viz_section df) \<noteq> [] \<longleftrightarrow>
      (\<exists>c \<in> set (columns df). is_number (snd c)) \<and> 2 \<le> length (columns df))
   \<and> (dropdowns (viz_section df) \<noteq> [] \<longrightarrow>
        dropdown_options ''viz-y'' (viz_section df)
          = Some (map fst (filter (\<lambda>c. is_number (snd c)) (columns df)))
        \<and> dropdown_options ''viz-x'' (viz_section df) = Some (map fst (columns df)))
   \<and> (dropdowns (viz_section df) = [] \<longrightarrow> viz_section df = Elem ''html.Div'' [] [])
   \<and> (run_query s (safe_statement q max_rows) e = (Inr df, s') \<and> \<not> is_blank (Some q) \<longrightarrow>
        fst (run_sql cd s e (Some q) max_rows)
          = (results_content cd df, Some (to_json cd df))
        \<and> last (results_content cd df) = viz_section df)"
proof (intro conjI impI)
  show "dropdowns (viz_section df) \<noteq> [] \<longleftrightarrow>
      (\<exists>c \<in> set (columns df). is_number (snd c)) \<and> 2 \<le> length (columns df)"
    by (auto simp: dropdowns_viz_section numeric_cols_def all_cols_def filter_empty_conv)
next
  assume "dropdowns (viz_section df) \<noteq> []"
  then have shown: "numeric_cols df \<noteq> [] \<and> 2 \<le> length (all_cols df)"
    by (simp add: dropdowns_viz_section split: if_splits)
  then show "dropdown_options ''viz-y'' (viz_section df)
          = Some (map fst (filter (\<lambda>c. is_number (snd c)) (columns df)))"
    by (simp add: dropdown_options_def dropdowns_viz_section numeric_cols_def)
  from shown show "dropdown_options ''viz-x'' (viz_section df) = Some (map fst (columns df))"
    by (simp add: dropdown_options_def dropdowns_viz_section all_cols_def)
next
  assume "dropdowns (viz_section df) = []"
  then show "viz_section df = Elem ''html.Div'' [] []"
    by (simp add: viz_section_def split: if_splits)
next
  assume a: "run_query s (safe_statement q max_rows) e = (Inr df, s') \<and> \<not> is_blank (Some q)"
  then show "fst (run_sql cd s e (Some q) max_rows) = (results_content cd df, Some (to_json cd df))"
    by (simp add: run_sql_def is_blank_def)
next
  show "last (results_content cd df) = viz_section df"
    by (simp add: results_content_def)
qed

theorem viz_axis_options_witness:
  "dropdown_options ''viz-y'' (viz_section orders_frame) = Some [''orders'']
   \<and> dropdown_options ''viz-x'' (viz_section orders_frame) = Some [''o_orderstatus'', ''orders'']"
proof -
  have shown: "dropdowns (viz_section orders_frame) \<noteq> []"
    by (simp add: dropdowns_viz_section numeric_cols_def all_cols_def orders_frame_def)
  from viz_axis_options [of orders_frame undefined undefined undefined undefined undefined undefined] shown
  have "dropdown_options ''viz-y'' (viz_section orders_frame)
          = Some (map fst (filter (\<lambda>c. is_number (snd c)) (columns orders_frame)))"
    and "dropdown_options ''viz-x'' (viz_section orders_frame) = Some (map fst (columns orders_frame))"
    by blast+
  then show ?thesis by (simp add: orders_frame_def)
qed

section \<open>The catalog browser\<close>

text \<open>
  Claim C4. The claim does not hold of the code. \<open>load_schemas\<close> answers a call in which
  no click count is set with \<open>no_update\<close>; \<open>load_tables\<close> and \<open>show_detail\<close> have no such
  test. A click on the catalog \<open>samples\<close> makes \<open>load_schemas\<close> write the schema list,
  with one item for each schema, and the catalog slot. Called for these new items and
  the changed slot, with no click count set, \<open>load_tables\<close> lists the tables of the first
  schema and writes the table list and the schema slot; called for the new table items
  and the changed slot, with no click count set, \<open>show_detail\<close> writes the detail pane.
  So the table list and the detail pane do not stay as they were when a catalog is
  clicked, and a view none of whose click events fired does not return \<open>no_update\<close>.
\<close>

theorem load_tables_without_click:
  "load_schemas None samples_env [None, Some 1] [DictId ''cat-item'' ''samples'']
     = (Inr (Update (Elem ''dbc.ListGroup'' [(''flush'', ''True'')]
                       [Elem ''dbc.ListGroupItem''
                          [(''id.type'', ''schema-item''), (''id.index'', ''nyctaxi''),
                           (''action'', ''True''), (''style.fontSize'', ''0.9em''),
                           (''style.cursor'', ''pointer'')]
                          [Text ''nyctaxi''],
                        Elem ''dbc.ListGroupItem''
                          [(''id.type'', ''schema-item''), (''id.index'', ''tpch''),
                           (''action'', ''True''), (''style.fontSize'', ''0.9em''),
                           (''style.cursor'', ''pointer'')]
                          [Text ''tpch'']]),
             Update ''samples''),
        Some ((), ()))
   \<and> \<not> py_any [None, None]
   \<and> load_schemas (Some ((), ())) samples_env [None, None]
        [DictId ''cat-item'' ''main'', DictId ''cat-item'' ''samples'']
     = (Inr (NoUpdate, NoUpdate), Some ((), ()))
   \<and> load_tables (Some ((), ())) samples_env [None, None] (Some ''samples'')
        [DictId ''schema-item'' ''nyctaxi'', DictId ''schema-item'' ''tpch'', StrId ''store-catalog'']
     = (Inr (Update (Elem ''dbc.ListGroup'' [(''flush'', ''True'')]
                       [Elem ''dbc.ListGroupItem''
                          [(''id.type'', ''table-item''), (''id.index'', ''trips''),
                           (''action'', ''True''), (''style.fontSize'', ''0.9em''),
                           (''style.cursor'', ''pointer'')]
                          [Text ''trips'']]),
             Update ''nyctaxi''),
        Some ((), ()))
   \<and> \<not> py_any [None]
   \<and> show_detail (Some ((), ())) samples_env [None] (Some ''samples'') (Some ''nyctaxi'')
        [DictId ''table-item'' ''trips'', StrId ''store-schema'']
     = (Inr (Update (detail_view ''samples'' ''nyctaxi'' ''trips''
                       \<lparr>table_type = Some ''MANAGED'', owner = None,
                        data_source_format = Some ''DELTA'', comment = None,
                        table_columns = None\<rparr>)),
        Some ((), ()))
   \<and> texts (detail_view ''samples'' ''nyctaxi'' ''trips''
              \<lparr>table_type = Some ''MANAGED'', owner = None,
               data_source_format = Some ''DELTA'', comment = None, table_columns = None\<rparr>)
     = [''Type: '', ''MANAGED'', ''Owner: '', ''n/a'', ''Format: '', ''DELTA'', ''SQL Reference'',
        ''SELECT *\<newline>FROM samples.nyctaxi.trips\<newline>LIMIT 100'']"
  by code_simp

section \<open>The identity page\<close>

lemma load_identity_no_token:
  assumes "header_or_empty e ''X-Forwarded-Access-Token'' = []"
  shows "load_identity e =
           Inr [kpi_row (header_or_empty e ''X-Forwarded-Email'')
                        (header_or_empty e ''X-Forwarded-Preferred-Username'')
                        (header_or_empty e ''X-Real-Ip''),
                Elem ''html.Hr'' [] [], obo_warning, Elem ''html.Hr'' [] [],
                raw_headers_pane e]"
  using assms by (simp add: load_identity_def Let_def)

lemma texts_kpi_row:
  "texts (kpi_row email username ip) =
     [''Email'', if email = [] then ''n/a'' else email,
      ''Username'', if username = [] then ''n/a'' else username,
      ''IP'', if ip = [] then ''n/a'' else ip]"
  by (simp add: kpi_row_def kpi_card_def na_def)

lemma tags_kpi_row:
  "tags (kpi_row email username ip) =
     [''dbc.Row'',
      ''dbc.Col'', ''dbc.Card'', ''dbc.CardBody'', ''html.P'', ''html.H4'',
      ''dbc.Col'', ''dbc.Card'', ''dbc.CardBody'', ''html.P'', ''html.H4'',
      ''dbc.Col'', ''dbc.Card'', ''dbc.CardBody'', ''html.P'', ''html.H4'']"
  by (simp add: kpi_row_def kpi_card_def)

lemma tags_raw_headers_pane:
  "tags (raw_headers_pane e) = [''html.Details'', ''html.Summary'', ''html.Pre'']"
  by (simp add: raw_headers_pane_def)

lemma obo_warning_tree:
  "obo_warning =
     Elem ''dbc.Alert'' [(''color'', ''warning'')]
       [Elem ''html.Strong'' [] [Text ''Basic info only. ''],
        Text (''Enable On-behalf-of-user authentication in app Settings ''
              @ [CHR 0xE2, CHR 0x86, CHR 0x92]
              @ '' Authorization to see full account details and group memberships.'')]"
  by (simp add: obo_warning_def arrow_sign_def)

lemma load_identity_with_token:
  assumes "header_or_empty e ''X-Forwarded-Access-Token'' = token" "token \<noteq> []"
    "token_client e token = None" "current_user_me e token = Inr me"
  shows "\<exists>sections. load_identity e = Inr sections
           \<and> groups_heading \<in> set sections \<and> workspace_heading \<in> set sections"
  using assms
  by (simp add: load_identity_def Let_def token_sections_def groups_section_def
      workspace_section_def)

lemma headings_tree:
  "groups_heading = Elem ''html.H5'' [(''className'', ''mt-4 mb-3'')]
                      [Text ([CHR 0xF0, CHR 0x9F, CHR 0x91, CHR 0xA5] @ '' Group Memberships'')]"
  "workspace_heading = Elem ''html.H5'' [(''className'', ''mt-4 mb-2'')]
                         [Text ([CHR 0xF0, CHR 0x9F, CHR 0x8F, CHR 0xA2] @ '' Workspace'')]"
  by (simp_all add: groups_heading_def workspace_heading_def heading_def people_sign_def
      office_sign_def)

text \<open>
  Claim C8. \<open>load_identity\<close> always returns its sections. When the request has no
  access token header (or an empty one, or there is no request), the sections are the
  row of cards, a rule, the warning alert whose text advises enabling on-behalf-of-user
  authentication in the app's settings, a rule and the raw headers pane. No section is
  or holds a heading (\<open>html.H5\<close>), which the account details, the group memberships and the
  workspace section each start with, and the warning is the only alert. The cards show
  the e-mail address, the user name and the IP address, each \<open>n/a\<close> when its header is
  absent or empty; without a request, or with a request without headers, all three show
  \<open>n/a\<close>. With a token and a current user, the headings of the group memberships and of
  the workspace are among the sections.
\<close>

theorem identity_without_token:
  "(\<exists>sections. load_identity e = Inr sections)
   \<and> (header_or_empty e ''X-Forwarded-Access-Token'' = [] \<longrightarrow>
        (\<exists>cards. load_identity e =
             Inr [cards, Elem ''html.Hr'' [] [],
                  Elem ''dbc.Alert'' [(''color'', ''warning'')]
                    [Elem ''html.Strong'' [] [Text ''Basic info only. ''],
                     Text (''Enable On-behalf-of-user authentication in app Settings ''
                           @ [CHR 0xE2, CHR 0x86, CHR 0x92]
                           @ '' Authorization to see full account details and group memberships.'')],
                  Elem ''html.Hr'' [] [], raw_headers_pane e]
           \<and> texts cards =
               [''Email'',
                if header_or_empty e ''X-Forwarded-Email'' = [] then ''n/a''
                else header_or_empty e ''X-Forwarded-Email'',
                ''Username'',
                if header_or_empty e ''X-Forwarded-Preferred-Username'' = [] then ''n/a''
                else header_or_empty e ''X-Forwarded-Preferred-Username'',
                ''IP'',
                if header_or_empty e ''X-Real-Ip'' = [] then ''n/a''
                else header_or_empty e ''X-Real-Ip''])
        \<and> (\<exists>sections. load_identity e = Inr sections
              \<and> ''html.H5'' \<notin> set (concat (map tags sections))
              \<and> filter (\<lambda>t. t = ''dbc.Alert'') (concat (map tags sections)) = [''dbc.Alert'']))
   \<and> (request_headers e = None \<or> request_headers e = Some [] \<longrightarrow>
        header_or_empty e key = []
        \<and> (\<exists>sections. load_identity e = Inr sections \<and> length sections = 5
              \<and> texts (sections ! 0) = [''Email'', ''n/a'', ''Username'', ''n/a'', ''IP'', ''n/a'']
              \<and> tags (sections ! 2) = [''dbc.Alert'', ''html.Strong'']))
   \<and> (header_or_empty e ''X-Forwarded-Access-Token'' = token \<and> token \<noteq> []
       \<and> token_client e token = None \<and> current_user_me e token = Inr me \<longrightarrow>
        (\<exists>sections. load_identity e = Inr sections
           \<and> Elem ''html.H5'' [(''className'', ''mt-4 mb-3'')]
                [Text ([CHR 0xF0, CHR 0x9F, CHR 0x91, CHR 0xA5] @ '' Group Memberships'')]
               \<in> set sections
           \<and> Elem ''html.H5'' [(''className'', ''mt-4 mb-2'')]
                [Text ([CHR 0xF0, CHR 0x9F, CHR 0x8F, CHR 0xA2] @ '' Workspace'')]
               \<in> set sections))"
proof -
  have p1: "\<exists>sections. load_identity e = Inr sections"
    by (simp add: load_identity_def Let_def)
  have p2: "header_or_empty e ''X-Forwarded-Access-Token'' = [] \<longrightarrow>
        (\<exists>cards. load_identity e =
             Inr [cards, Elem ''html.Hr'' [] [],
                  Elem ''dbc.Alert'' [(''color'', ''warning'')]
                    [Elem ''html.Strong'' [] [Text ''Basic info only. ''],
                     Text (''Enable On-behalf-of-user authentication in app Settings ''
                           @ [CHR 0xE2, CHR 0x86, CHR 0x92]
                           @ '' Authorization to see full account details and group memberships.'')],
                  Elem ''html.Hr'' [] [], raw_headers_pane e]
           \<and> texts cards =
               [''Email'',
                if header_or_empty e ''X-Forwarded-Email'' = [] then ''n/a''
                else header_or_empty e ''X-Forwarded-Email'',
                ''Username'',
                if header_or_empty e ''X-Forwarded-Preferred-Username'' = [] then ''n/a''
                else header_or_empty e ''X-Forwarded-Preferred-Username'',
                ''IP'',
                if header_or_empty e ''X-Real-Ip'' = [] then ''n/a''
                else header_or_empty e ''X-Real-Ip''])
        \<and> (\<exists>sections. load_identity e = Inr sections
              \<and> ''html.H5'' \<notin> set (concat (map tags sections))
              \<and> filter (\<lambda>t. t = ''dbc.Alert'') (concat (map tags sections)) = [''dbc.Alert''])"
  proof (intro impI conjI)
    assume a: "header_or_empty e ''X-Forwarded-Access-Token'' = []"
    note l = load_identity_no_token [OF a, unfolded obo_warning_tree]
    from l texts_kpi_row
    show "\<exists>cards. load_identity e =
             Inr [cards, Elem ''html.Hr'' [] [],
                  Elem ''dbc.Alert'' [(''color'', ''warning'')]
                    [Elem ''html.Strong'' [] [Text ''Basic info only. ''],
                     Text (''Enable On-behalf-of-user authentication in app Settings ''
                           @ [CHR 0xE2, CHR 0x86, CHR 0x92]
                           @ '' Authorization to see full account details and group memberships.'')],
                  Elem ''html.Hr'' [] [], raw_headers_pane e]
           \<and> texts cards =
               [''Email'',
                if header_or_empty e ''X-Forwarded-Email'' = [] then ''n/a''
                else header_or_empty e ''X-Forwarded-Email'',
                ''Username'',
                if header_or_empty e ''X-Forwarded-Preferred-Username'' = [] then ''n/a''
                else header_or_empty e ''X-Forwarded-Preferred-Username'',
                ''IP'',
                if header_or_empty e ''X-Real-Ip'' = [] then ''n/a''
                else header_or_empty e ''X-Real-Ip'']"
      by blast
    show "\<exists>sections. load_identity e = Inr sections
              \<and> ''html.H5'' \<notin> set (concat (map tags sections))
              \<and> filter (\<lambda>t. t = ''dbc.Alert'') (concat (map tags sections)) = [''dbc.Alert'']"
      unfolding l by (simp add: tags_kpi_row tags_raw_headers_pane)
  qed
  have p3: "request_headers e = None \<or> request_headers e = Some [] \<longrightarrow>
        header_or_empty e key = []
        \<and> (\<exists>sections. load_identity e = Inr sections \<and> length sections = 5
              \<and> texts (sections ! 0) = [''Email'', ''n/a'', ''Username'', ''n/a'', ''IP'', ''n/a'']
              \<and> tags (sections ! 2) = [''dbc.Alert'', ''html.Strong''])"
  proof (intro impI conjI)
    assume a: "request_headers e = None \<or> request_headers e = Some []"
    then have h: "\<And>k. header_or_empty e k = []"
      by (auto simp: header_or_empty_def headers_get_def)
    show "header_or_empty e key = []" by (rule h)
    show "\<exists>sections. load_identity e = Inr sections \<and> length sections = 5
              \<and> texts (sections ! 0) = [''Email'', ''n/a'', ''Username'', ''n/a'', ''IP'', ''n/a'']
              \<and> tags (sections ! 2) = [''dbc.Alert'', ''html.Strong'']"
      unfolding load_identity_no_token [OF h, unfolded obo_warning_tree]
      by (simp add: texts_kpi_row h)
  qed
  have p4: "header_or_empty e ''X-Forwarded-Access-Token'' = token \<and> token \<noteq> []
       \<and> token_client e token = None \<and> current_user_me e token = Inr me \<longrightarrow>
        (\<exists>sections. load_identity e = Inr sections
           \<and> Elem ''html.H5'' [(''className'', ''mt-4 mb-3'')]
                [Text ([CHR 0xF0, CHR 0x9F, CHR 0x91, CHR 0xA5] @ '' Group Memberships'')]
               \<in> set sections
           \<and> Elem ''html.H5'' [(''className'', ''mt-4 mb-2'')]
                [Text ([CHR 0xF0, CHR 0x9F, CHR 0x8F, CHR 0xA2] @ '' Workspace'')]
               \<in> set sections)"
    using load_identity_with_token [of e token me] unfolding headings_tree by blast
  show ?thesis by (intro conjI; fact)
qed

lemma anonymous_headers:
  "header_or_empty anonymous_request ''X-Forwarded-Access-Token'' = []"
  "header_or_empty anonymous_request ''X-Forwarded-Email'' = []"
  "header_or_empty anonymous_request ''X-Forwarded-Preferred-Username'' = []"
  "header_or_empty anonymous_request ''X-Real-Ip'' = ''10.0.0.7''"
  by code_simp+

lemma delegated_token:
  "header_or_empty delegated_request ''X-Forwarded-Access-Token'' = ''dapi-123''"
  by code_simp

theorem identity_without_token_witness:
  "(\<exists>cards. load_identity anonymous_request =
       Inr [cards, Elem ''html.Hr'' [] [],
            Elem ''dbc.Alert'' [(''color'', ''warning'')]
              [Elem ''html.Strong'' [] [Text ''Basic info only. ''],
               Text (''Enable On-behalf-of-user authentication in app Settings ''
                     @ [CHR 0xE2, CHR 0x86, CHR 0x92]
                     @ '' Authorization to see full account details and group memberships.'')],
            Elem ''html.Hr'' [] [], raw_headers_pane anonymous_request]
      \<and> texts cards = [''Email'', ''n/a'', ''Username'', ''n/a'', ''IP'', ''10.0.0.7''])
   \<and> (\<exists>sections. load_identity anonymous_request = Inr sections
         \<and> ''html.H5'' \<notin> set (concat (map tags sections))
         \<and> filter (\<lambda>t. t = ''dbc.Alert'') (concat (map tags sections)) = [''dbc.Alert''])
   \<and> (\<exists>sections. load_identity delegated_request = Inr sections
      \<and> Elem ''html.H5'' [(''className'', ''mt-4 mb-3'')]
           [Text ([CHR 0xF0, CHR 0x9F, CHR 0x91, CHR 0xA5] @ '' Group Memberships'')]
          \<in> set sections
      \<and> Elem ''html.H5'' [(''className'', ''mt-4 mb-2'')]
           [Text ([CHR 0xF0, CHR 0x9F, CHR 0x8F, CHR 0xA2] @ '' Workspace'')]
          \<in> set sections)"
proof -
  note t1 = identity_without_token [of anonymous_request undefined undefined undefined,
      THEN conjunct2, THEN conjunct1, THEN mp, OF anonymous_headers(1)]
  have tok: "header_or_empty delegated_request ''X-Forwarded-Access-Token'' = ''dapi-123''
             \<and> ''dapi-123'' \<noteq> []
             \<and> token_client delegated_request ''dapi-123'' = None
             \<and> current_user_me delegated_request ''dapi-123''
                 = Inr \<lparr>user_id = Some ''42'', display_name = Some ''Ada'', active = Some True,
                        name = None, groups = Some [Some ''admins'', None]\<rparr>"
    by (simp add: delegated_token) (simp add: delegated_request_def)
  note t2 = identity_without_token [of delegated_request undefined "''dapi-123''"
      "\<lparr>user_id = Some ''42'', display_name = Some ''Ada'', active = Some True,
        name = None, groups = Some [Some ''admins'', None]\<rparr>",
      THEN conjunct2, THEN conjunct2, THEN conjunct2, THEN mp, OF tok]
  have a: "\<exists>cards. load_identity anonymous_request =
       Inr [cards, Elem ''html.Hr'' [] [],
            Elem ''dbc.Alert'' [(''color'', ''warning'')]
              [Elem ''html.Strong'' [] [Text ''Basic info only. ''],
               Text (''Enable On-behalf-of-user authentication in app Settings ''
                     @ [CHR 0xE2, CHR 0x86, CHR 0x92]
                     @ '' Authorization to see full account details and group memberships.'')],
            Elem ''html.Hr'' [] [], raw_headers_pane anonymous_request]
      \<and> texts cards = [''Email'', ''n/a'', ''Username'', ''n/a'', ''IP'', ''10.0.0.7'']"
    using t1 [THEN conjunct1] by (simp only: anonymous_headers if_True) simp
  from a t1 [THEN conjunct2] t2 show ?thesis by blast
qed

lemma set_update_subset: "set (AList.update k v al) \<subseteq> insert (k, v) (set al)"
  by (induction al) auto

lemma foldl_update_subset:
  "set (foldl (\<lambda>safe h. AList.update (fst h) (snd h) safe) acc hs) \<subseteq> set acc \<union> set hs"
proof (induction hs arbitrary: acc)
  case Nil
  then show ?case by simp
next
  case (Cons h hs)
  have "set (AList.update (fst h) (snd h) acc) \<subseteq> insert h (set acc)"
    using set_update_subset [of "fst h" "snd h" acc] by simp
  with Cons [of "AList.update (fst h) (snd h) acc"] show ?case by auto
qed

lemma shown_headers_subset:
  "h \<in> set (shown_headers e) \<Longrightarrow>
   \<exists>hs. request_headers e = Some hs \<and> h \<in> set hs \<and> is_safe_name (fst h)"
proof (cases "request_headers e")
  case None
  assume "h \<in> set (shown_headers e)"
  with None show ?thesis by (simp add: shown_headers_def safe_headers_def)
next
  case (Some hs)
  assume "h \<in> set (shown_headers e)"
  with Some have "h \<in> set (filter (\<lambda>h. is_safe_name (fst h)) hs)"
    using foldl_update_subset [of "[]" "filter (\<lambda>h. is_safe_name (fst h)) hs"]
    by (auto simp: shown_headers_def safe_headers_def)
  with Some show ?thesis by simp
qed

lemma token_header_unsafe:
  "is_safe_name k \<Longrightarrow> lower k \<noteq> lower ''X-Forwarded-Access-Token''"
proof
  assume s: "is_safe_name k" and eq: "lower k = lower ''X-Forwarded-Access-Token''"
  have "lower ''X-Forwarded-Access-Token'' = ''x-forwarded-access-token''"
    by (simp add: lower_def lower_char_def)
  moreover have "contains ''token'' ''x-forwarded-access-token''" by simp
  ultimately have "contains ''token'' (lower k)" using eq by simp
  with s show False by (simp add: is_safe_name_def)
qed

text \<open>
  Claim C10. Every header shown in the raw headers pane is a header of the request whose
  name, in lower case, holds neither \<open>token\<close> nor \<open>secret\<close>; none is named
  \<open>X-Forwarded-Access-Token\<close>, in whatever case. The pane's text is these headers,
  one line each, and the pane is the last of the sections \<open>load_identity\<close> returns.
\<close>

theorem raw_headers_safe:
  "(\<forall>h \<in> set (shown_headers e).
       \<not> contains ''token'' (lower (fst h)) \<and> \<not> contains ''secret'' (lower (fst h))
       \<and> lower (fst h) \<noteq> lower ''X-Forwarded-Access-Token''
       \<and> (\<exists>hs. request_headers e = Some hs \<and> h \<in> set hs))
   \<and> raw_headers_pane e =
       Elem ''html.Details'' [(''className'', ''mt-3'')]
         [Elem ''html.Summary'' [(''style.cursor'', ''pointer''), (''style.fontWeight'', ''bold'')]
            [Text (magnifier_sign @ '' Raw HTTP Headers'')],
          Elem ''html.Pre''
            [(''style.background'', ''#f5f5f5''), (''style.padding'', ''12px''),
             (''style.borderRadius'', ''6px''), (''style.fontSize'', ''0.8em''),
             (''style.maxHeight'', ''300px''), (''style.overflow'', ''auto'')]
            [Text (join ''\<newline>'' (map (\<lambda>h. fst h @ '': '' @ snd h) (shown_headers e)))]]
   \<and> (\<exists>sections. load_identity e = Inr sections \<and> last sections = raw_headers_pane e)"
proof (intro conjI ballI)
  fix h assume h: "h \<in> set (shown_headers e)"
  then obtain hs where hs: "request_headers e = Some hs" "h \<in> set hs" "is_safe_name (fst h)"
    using shown_headers_subset by blast
  from hs(3) show "\<not> contains ''token'' (lower (fst h))" "\<not> contains ''secret'' (lower (fst h))"
    by (simp_all add: is_safe_name_def)
  from hs(3) show "lower (fst h) \<noteq> lower ''X-Forwarded-Access-Token''"
    by (rule token_header_unsafe)
  from hs show "\<exists>hs. request_headers e = Some hs \<and> h \<in> set hs" by blast
next
  show "raw_headers_pane e =
       Elem ''html.Details'' [(''className'', ''mt-3'')]
         [Elem ''html.Summary'' [(''style.cursor'', ''pointer''), (''style.fontWeight'', ''bold'')]
            [Text (magnifier_sign @ '' Raw HTTP Headers'')],
          Elem ''html.Pre''
            [(''style.background'', ''#f5f5f5''), (''style.padding'', ''12px''),
             (''style.borderRadius'', ''6px''), (''style.fontSize'', ''0.8em''),
             (''style.maxHeight'', ''300px''), (''style.overflow'', ''auto'')]
            [Text (join ''\<newline>'' (map (\<lambda>h. fst h @ '': '' @ snd h) (shown_headers e)))]]"
    by (simp add: raw_headers_pane_def)
next
  show "\<exists>sections. load_identity e = Inr sections \<and> last sections = raw_headers_pane e"
    by (simp add: load_identity_def Let_def)
qed

lemma delegated_shown:
  "shown_headers delegated_request =
     [(''Accept'', ''text/html''), (''Host'', ''app.example.com''),
      (''X-Forwarded-Email'', ''ada@example.com'')]"
  by code_simp

theorem raw_headers_safe_witness:
  "shown_headers delegated_request =
     [(''Accept'', ''text/html''), (''Host'', ''app.example.com''),
      (''X-Forwarded-Email'', ''ada@example.com'')]
   \<and> (''X-Forwarded-Access-Token'', ''dapi-123'') \<notin> set (shown_headers delegated_request)
   \<and> \<not> contains ''token'' (lower ''X-Forwarded-Email'')
   \<and> (\<exists>sections. load_identity delegated_request = Inr sections
         \<and> last sections = raw_headers_pane delegated_request)"
proof -
  note t = raw_headers_safe [of delegated_request]
  from t have all: "\<forall>h \<in> set (shown_headers delegated_request).
       \<not> contains ''token'' (lower (fst h)) \<and> lower (fst h) \<noteq> lower ''X-Forwarded-Access-Token''"
    by blast
  then have "(''X-Forwarded-Access-Token'', ''dapi-123'') \<notin> set (shown_headers delegated_request)"
    by auto
  moreover from all have "\<not> contains ''token'' (lower ''X-Forwarded-Email'')"
    unfolding delegated_shown by simp
  moreover from t have "\<exists>sections. load_identity delegated_request = Inr sections
         \<and> last sections = raw_headers_pane delegated_request"
    by blast
  ultimately show ?thesis using delegated_shown by blast
qed

section \<open>Errors at the view boundary\<close>

lemma try_view_total: "\<exists>c. fst (try_view render s e st) = Inr c"
  by (auto simp: try_view_def split: sum.splits prod.splits)

lemma try_view_error:
  "view_exception render s e st = Some x \<Longrightarrow>
   fst (try_view render s e st) = Inr (error_alert (str_exn x))"
  by (auto simp: try_view_def view_exception_def split: sum.splits prod.splits)

lemma load_catalogs_total: "\<exists>c. fst (load_catalogs c0 ce) = Inr c"
  by (auto simp: load_catalogs_def split: sum.splits prod.splits)

lemma load_catalogs_error:
  "catalog_exception c0 ce (catalogs_list ce) = Some x \<Longrightarrow>
   fst (load_catalogs c0 ce) = Inr (error_alert (str_exn x))"
  by (auto simp: load_catalogs_def catalog_exception_def split: sum.splits prod.splits)

lemma load_schemas_total: "\<exists>out. fst (load_schemas c0 ce n (DictId ty cat # rest)) = Inr out"
  by (auto simp: load_schemas_def split: sum.splits prod.splits)

lemma load_schemas_error:
  "py_any n \<Longrightarrow> catalog_exception c0 ce (schemas_list ce cat) = Some x \<Longrightarrow>
   fst (load_schemas c0 ce n (DictId ty cat # rest)) = Inr (Update (error_alert (str_exn x)), NoUpdate)"
  by (auto simp: load_schemas_def catalog_exception_def split: sum.splits prod.splits)

lemma load_tables_total: "\<exists>out. fst (load_tables c0 ce n catalog ctx) = Inr out"
  by (auto simp: load_tables_def split: sum.splits prod.splits option.splits component_id.splits)

lemma load_tables_error:
  "cat \<noteq> [] \<Longrightarrow> catalog_exception c0 ce (tables_list ce cat sch) = Some x \<Longrightarrow>
   fst (load_tables c0 ce n (Some cat) (DictId ''schema-item'' sch # rest))
     = Inr (Update (error_alert (str_exn x)), NoUpdate)"
  by (auto simp: load_tables_def catalog_exception_def split: sum.splits prod.splits)

lemma show_detail_total: "\<exists>out. fst (show_detail c0 ce n catalog schema ctx) = Inr out"
  by (auto simp: show_detail_def split: sum.splits prod.splits option.splits component_id.splits)

lemma show_detail_error:
  "cat \<noteq> [] \<Longrightarrow> sch \<noteq> [] \<Longrightarrow>
   catalog_exception c0 ce (tables_get ce (cat @ ''.'' @ sch @ ''.'' @ tbl)) = Some x \<Longrightarrow>
   fst (show_detail c0 ce n (Some cat) (Some sch) (DictId ''table-item'' tbl # rest))
     = Inr (Update (error_alert (str_exn x)))"
  by (auto simp: show_detail_def catalog_exception_def split: sum.splits prod.splits)

lemma run_sql_error:
  "\<not> is_blank (Some q) \<Longrightarrow> fst (run_query s (safe_statement q m) e) = Inl x \<Longrightarrow>
   fst (run_sql cd s e (Some q) m) = ([error_alert (str_exn x)], None)"
  by (auto simp: run_sql_def is_blank_def split: sum.splits prod.splits)

lemma error_alert_message:
  "\<exists>pre. error_alert msg
     = Elem ''dbc.Alert'' [(''color'', ''danger''), (''className'', ''mt-3'')] [Text (pre @ msg)]"
  unfolding error_alert_def by (intro exI [of _ "warning_sign @ '' ''"]) simp

lemma lru_cache1_again:
  "fst (lru_cache1 f (snd (lru_cache1 f c k)) k) = fst (lru_cache1 f c k)"
  by (auto simp: lru_cache1_def split: option.splits sum.splits prod.splits)

lemma get_path_pair:
  "get_warehouse_http_path s e = (Inr (cached_path s e), s\<lparr>path_cache := Some ((), cached_path s e)\<rparr>)"
  by (simp add: get_warehouse_http_path_def lru_cache1_def cached_path_def split: option.splits prod.splits)

lemma run_query_fst:
  "fst (run_query s q e) =
     (case cached_path s e of
        None \<Rightarrow> Inl no_warehouse
      | Some p \<Rightarrow>
          if p = [] then Inl no_warehouse
          else (case fst (lru_cache1 (sql_connect e) (conn_cache s) p) of
                  Inl x \<Rightarrow> Inl x
                | Inr c \<Rightarrow> cursor_execute e c q))"
  by (simp add: run_query_def get_path_pair get_connection_def
      split: option.splits sum.splits prod.splits)

lemma run_query_snd:
  "snd (run_query s q e) =
     (case cached_path s e of
        None \<Rightarrow> s\<lparr>path_cache := Some ((), None)\<rparr>
      | Some p \<Rightarrow>
          if p = [] then s\<lparr>path_cache := Some ((), Some p)\<rparr>
          else s\<lparr>path_cache := Some ((), Some p),
                 conn_cache := snd (lru_cache1 (sql_connect e) (conn_cache s) p)\<rparr>)"
  by (simp add: run_query_def get_path_pair get_connection_def
      split: option.splits sum.splits prod.splits)

lemma cached_path_after:
  "cached_path (snd (run_query s q e)) e' = cached_path s e"
  by (simp add: run_query_snd cached_path_def split: option.splits)

lemma run_query_same_answers:
  "fst (run_query (snd (run_query s q e)) q' e) = fst (run_query s q' e)"
proof (cases "cached_path s e")
  case None
  then show ?thesis
    by (simp add: run_query_fst [of "snd (run_query s q e)"] cached_path_after)
      (simp add: run_query_fst)
next
  case (Some p)
  show ?thesis
  proof (cases "p = []")
    case True
    with Some show ?thesis
      by (simp add: run_query_fst [of "snd (run_query s q e)"] cached_path_after)
        (simp add: run_query_fst)
  next
    case False
    with Some have c: "conn_cache (snd (run_query s q e))
                         = snd (lru_cache1 (sql_connect e) (conn_cache s) p)"
      by (simp add: run_query_snd)
    from Some False show ?thesis
      by (simp add: run_query_fst [of "snd (run_query s q e)"] cached_path_after c lru_cache1_again)
        (simp add: run_query_fst)
  qed
qed

lemma try_view_fst:
  "fst (try_view render s e st) =
     (case st of
        Inl x \<Rightarrow> Inr (error_alert (str_exn x))
      | Inr q \<Rightarrow>
          (case fst (run_query s q e) of
             Inl x \<Rightarrow> Inr (error_alert (str_exn x))
           | Inr df \<Rightarrow> (case render df of Inl x \<Rightarrow> Inr (error_alert (str_exn x)) | Inr c \<Rightarrow> Inr c)))"
  by (simp add: try_view_def split: sum.splits prod.splits)

lemma try_view_snd:
  "snd (try_view render s e st) = (case st of Inl x \<Rightarrow> s | Inr q \<Rightarrow> snd (run_query s q e))"
  by (simp add: try_view_def split: sum.splits prod.splits)

lemma run_sql_fst:
  "fst (run_sql cd s e query m) =
     (case query of
        None \<Rightarrow> ([enter_query_alert], None)
      | Some q \<Rightarrow>
          if q = [] \<or> strip q = [] then ([enter_query_alert], None)
          else (case fst (run_query s (safe_statement q m) e) of
                  Inl x \<Rightarrow> ([error_alert (str_exn x)], None)
                | Inr df \<Rightarrow> (results_content cd df, Some (to_json cd df))))"
  by (simp add: run_sql_def split: option.splits sum.splits prod.splits)

lemma run_sql_snd:
  "snd (run_sql cd s e query m) =
     (case query of
        None \<Rightarrow> s
      | Some q \<Rightarrow> if q = [] \<or> strip q = [] then s else snd (run_query s (safe_statement q m) e))"
  by (simp add: run_sql_def split: option.splits sum.splits prod.splits)

lemma same_answers_refl: "same_answers s s e"
  by (simp add: same_answers_def)

lemma same_answers_run_query: "same_answers s (snd (run_query s q e)) e"
  by (simp add: same_answers_def run_query_same_answers)

lemma same_answers_try_view: "same_answers s (snd (try_view render s e st)) e"
  by (simp add: try_view_snd same_answers_refl same_answers_run_query split: sum.splits)

lemma same_answers_run_sql: "same_answers s (snd (run_sql cd s e query m)) e"
  by (simp add: run_sql_snd same_answers_refl same_answers_run_query split: option.splits)

lemma same_answers_views:
  assumes "same_answers s s' e"
  shows "fst (try_view render s' e st) = fst (try_view render s e st)"
    and "fst (run_sql cd s' e query m) = fst (run_sql cd s e query m)"
  using assms
  by (simp_all add: try_view_fst run_sql_fst same_answers_def split: sum.splits option.splits)

lemma client_again: "fst (client (snd (client c e)) e) = fst (client c e)"
  unfolding client_def by (rule lru_cache1_again)

lemma same_client_refl: "same_client c c e"
  by (simp add: same_client_def)

lemma same_client_client: "same_client c (snd (client c e)) e"
  by (simp add: same_client_def client_again)

lemma load_catalogs_snd: "snd (load_catalogs c e) = snd (client c e)"
  by (simp add: load_catalogs_def split: sum.splits prod.splits)

lemma load_schemas_snd: "snd (load_schemas c e n ctx) = c \<or> snd (load_schemas c e n ctx) = snd (client c e)"
  by (simp add: load_schemas_def split: sum.splits prod.splits component_id.splits)

lemma load_tables_snd:
  "snd (load_tables c e n catalog ctx) = c \<or> snd (load_tables c e n catalog ctx) = snd (client c e)"
  by (simp add: load_tables_def split: sum.splits prod.splits component_id.splits option.splits)

lemma show_detail_snd:
  "snd (show_detail c e n catalog schema ctx) = c
   \<or> snd (show_detail c e n catalog schema ctx) = snd (client c e)"
  by (simp add: show_detail_def split: sum.splits prod.splits component_id.splits option.splits)

lemma same_client_callbacks:
  "same_client c (snd (load_catalogs c e)) e"
  "same_client c (snd (load_schemas c e n ctx)) e"
  "same_client c (snd (load_tables c e n catalog ctx)) e"
  "same_client c (snd (show_detail c e n catalog schema ctx)) e"
  using load_schemas_snd [of c e n ctx] load_tables_snd [of c e n catalog ctx]
    show_detail_snd [of c e n catalog schema ctx]
  by (auto simp: load_catalogs_snd same_client_refl same_client_client)

lemma load_catalogs_fst:
  "fst (load_catalogs c e) =
     (case fst (client c e) of
        Inl x \<Rightarrow> Inr (error_alert (str_exn x))
      | Inr w \<Rightarrow>
          (case catalogs_list e of
             Inl x \<Rightarrow> Inr (error_alert (str_exn x))
           | Inr cs \<Rightarrow> Inr (list_group ''cat-item'' (samples_first (truthy_names cs)))))"
  by (simp add: load_catalogs_def split: sum.splits prod.splits)

lemma same_client_outputs:
  assumes "same_client c c' e"
  shows "fst (load_catalogs c' e) = fst (load_catalogs c e)"
    and "fst (load_schemas c' e n ctx) = fst (load_schemas c e n ctx)"
    and "fst (load_tables c' e n catalog ctx) = fst (load_tables c e n catalog ctx)"
    and "fst (show_detail c' e n catalog schema ctx) = fst (show_detail c e n catalog schema ctx)"
proof -
  from assms have eq: "fst (client c' e) = fst (client c e)" by (simp add: same_client_def)
  obtain r1 c1 where 1: "client c e = (r1, c1)" by (cases "client c e")
  obtain r2 c2 where 2: "client c' e = (r2, c2)" by (cases "client c' e")
  from eq 1 2 have r: "r2 = r1" by simp
  show "fst (load_catalogs c' e) = fst (load_catalogs c e)"
    by (simp add: load_catalogs_fst eq)
  show "fst (load_schemas c' e n ctx) = fst (load_schemas c e n ctx)"
    by (simp add: load_schemas_def 1 2 r split: sum.splits component_id.splits)
  show "fst (load_tables c' e n catalog ctx) = fst (load_tables c e n catalog ctx)"
    by (simp add: load_tables_def 1 2 r split: sum.splits component_id.splits option.splits)
  show "fst (show_detail c' e n catalog schema ctx) = fst (show_detail c e n catalog schema ctx)"
    by (simp add: show_detail_def 1 2 r split: sum.splits component_id.splits option.splits)
qed

lemma discovery_swallowed:
  "path_cache s = None \<Longrightarrow> discover_try e = Inl x \<Longrightarrow>
   view_exception render s e (Inr q) = Some no_warehouse"
  by (simp add: view_exception_def run_query_fst cached_path_def get_warehouse_http_path_body_def)

lemma discovery_memoized:
  assumes "path_cache s = None" "discover_try e = Inl x"
  shows "view_exception render' (snd (try_view render s e (Inr q))) e' (Inr q') = Some no_warehouse"
proof -
  from assms have "cached_path s e = None"
    by (simp add: cached_path_def get_warehouse_http_path_body_def)
  then have "cached_path (snd (run_query s q e)) e' = None"
    by (simp add: cached_path_after)
  then show ?thesis
    by (simp add: view_exception_def try_view_snd run_query_fst)
qed

lemma discovery_memoized_query:
  assumes "path_cache s = None" "discover_try e = Inl x"
  shows "fst (run_query (snd (run_query s q e)) q' e') = Inl no_warehouse"
proof -
  from assms have "cached_path s e = None"
    by (simp add: cached_path_def get_warehouse_http_path_body_def)
  then have "cached_path (snd (run_query s q e)) e' = None"
    by (simp add: cached_path_after)
  then show ?thesis by (simp add: run_query_fst)
qed

text \<open>
  Claim C5, as amended. Each callback of the catalog page returns its outputs, whatever
  the service does, and an exception raised inside its \<open>try\<close> (by \<open>_client()\<close>, by the
  listing or by the lookup) becomes the error alert with that exception's message in the
  callback's own pane, its store left alone. Each of the eight callbacks of the sales and
  taxi pages returns a component, and an exception raised inside its \<open>try\<close> (building
  the statement, in \<open>run_query\<close>, or rendering the frame) becomes the error alert with
  that exception's message. In \<open>run_sql\<close> the \<open>try\<close> holds the call of \<open>run_query\<close>:
  an exception it raises becomes the error alert with its message. The alert's text ends
  with the message. A call of a view of the sales, taxi or SQL page, failed or not,
  leaves \<open>utils/sql_client.py\<close> in a state that gives the same answers in the call's
  environment, and each of these views returns the same in two such states; likewise
  the callbacks of the catalog page and their client cache. An exception raised inside
  warehouse discovery does not reach the view: with nothing cached, \<open>run_query\<close> raises
  "No SQL warehouse available." in its place, \<open>None\<close> is memoized, and every
  \<open>run_query\<close> called afterwards raises the same error, in whatever environment.
\<close>

theorem errors_rendered_in_place:
  "(\<exists>c. fst (load_catalogs c0 ce) = Inr c)
   \<and> (catalog_exception c0 ce (catalogs_list ce) = Some x \<longrightarrow>
      fst (load_catalogs c0 ce) = Inr (error_alert (str_exn x)))
   \<and> (\<exists>out. fst (load_schemas c0 ce n (DictId ty cat # rest)) = Inr out)
   \<and> (py_any n \<and> catalog_exception c0 ce (schemas_list ce cat) = Some x \<longrightarrow>
      fst (load_schemas c0 ce n (DictId ty cat # rest))
        = Inr (Update (error_alert (str_exn x)), NoUpdate))
   \<and> (\<exists>out. fst (load_tables c0 ce n catalog ctx) = Inr out)
   \<and> (cat \<noteq> [] \<and> catalog_exception c0 ce (tables_list ce cat sch) = Some x \<longrightarrow>
      fst (load_tables c0 ce n (Some cat) (DictId ''schema-item'' sch # rest))
        = Inr (Update (error_alert (str_exn x)), NoUpdate))
   \<and> (\<exists>out. fst (show_detail c0 ce n catalog schema ctx) = Inr out)
   \<and> (cat \<noteq> [] \<and> sch \<noteq> []
      \<and> catalog_exception c0 ce (tables_get ce (cat @ ''.'' @ sch @ ''.'' @ tbl)) = Some x \<longrightarrow>
      fst (show_detail c0 ce n (Some cat) (Some sch) (DictId ''table-item'' tbl # rest))
        = Inr (Update (error_alert (str_exn x))))
   \<and> (\<exists>c. fst (sales_update_kpis render s e years status) = Inr c)
   \<and> (view_exception render s e (sales_kpis_query years status) = Some x \<longrightarrow>
      fst (sales_update_kpis render s e years status) = Inr (error_alert (str_exn x)))
   \<and> (\<exists>c. fst (update_trend render s e years status) = Inr c)
   \<and> (view_exception render s e (sales_trend_query years status) = Some x \<longrightarrow>
      fst (update_trend render s e years status) = Inr (error_alert (str_exn x)))
   \<and> (\<exists>c. fst (update_region render s e years status) = Inr c)
   \<and> (view_exception render s e (sales_region_query years status) = Some x \<longrightarrow>
      fst (update_region render s e years status) = Inr (error_alert (str_exn x)))
   \<and> (\<exists>c. fst (update_customers render s e years status topn) = Inr c)
   \<and> (view_exception render s e (sales_customers_query years status topn) = Some x \<longrightarrow>
      fst (update_customers render s e years status topn) = Inr (error_alert (str_exn x)))
   \<and> (\<exists>c. fst (taxi_update_kpis render s e fare dist) = Inr c)
   \<and> (view_exception render s e (taxi_kpis_query fare dist) = Some x \<longrightarrow>
      fst (taxi_update_kpis render s e fare dist) = Inr (error_alert (str_exn x)))
   \<and> (\<exists>c. fst (update_distributions render s e fare dist sample) = Inr c)
   \<and> (view_exception render s e (taxi_distributions_query fare dist sample) = Some x \<longrightarrow>
      fst (update_distributions render s e fare dist sample) = Inr (error_alert (str_exn x)))
   \<and> (\<exists>c. fst (update_hourly render s e fare dist) = Inr c)
   \<and> (view_exception render s e (taxi_hourly_query fare dist) = Some x \<longrightarrow>
      fst (update_hourly render s e fare dist) = Inr (error_alert (str_exn x)))
   \<and> (\<exists>c. fst (update_scatter render s e fare dist sample) = Inr c)
   \<and> (view_exception render s e (taxi_scatter_query fare dist sample) = Some x \<longrightarrow>
      fst (update_scatter render s e fare dist sample) = Inr (error_alert (str_exn x)))
   \<and> (\<not> is_blank (Some q) \<and> fst (run_query s (safe_statement q m) e) = Inl x \<longrightarrow>
      fst (run_sql cd s e (Some q) m) = ([error_alert (str_exn x)], None))
   \<and> (\<exists>pre. error_alert msg
         = Elem ''dbc.Alert'' [(''color'', ''danger''), (''className'', ''mt-3'')] [Text (pre @ msg)])
   \<and> (same_answers s (snd (sales_update_kpis render s e years status)) e
       \<and> same_answers s (snd (update_trend render s e years status)) e
       \<and> same_answers s (snd (update_region render s e years status)) e
       \<and> same_answers s (snd (update_customers render s e years status topn)) e
       \<and> same_answers s (snd (taxi_update_kpis render s e fare dist)) e
       \<and> same_answers s (snd (update_distributions render s e fare dist sample)) e
       \<and> same_answers s (snd (update_hourly render s e fare dist)) e
       \<and> same_answers s (snd (update_scatter render s e fare dist sample)) e
       \<and> same_answers s (snd (run_sql cd s e query m)) e)
   \<and> (same_answers s s' e \<longrightarrow>
        fst (sales_update_kpis render s' e years status) = fst (sales_update_kpis render s e years status)
        \<and> fst (update_trend render s' e years status) = fst (update_trend render s e years status)
        \<and> fst (update_region render s' e years status) = fst (update_region render s e years status)
        \<and> fst (update_customers render s' e years status topn)
            = fst (update_customers render s e years status topn)
        \<and> fst (taxi_update_kpis render s' e fare dist) = fst (taxi_update_kpis render s e fare dist)
        \<and> fst (update_distributions render s' e fare dist sample)
            = fst (update_distributions render s e fare dist sample)
        \<and> fst (update_hourly render s' e fare dist) = fst (update_hourly render s e fare dist)
        \<and> fst (update_scatter render s' e fare dist sample)
            = fst (update_scatter render s e fare dist sample)
        \<and> fst (run_sql cd s' e query m) = fst (run_sql cd s e query m))
   \<and> (same_client c0 (snd (load_catalogs c0 ce)) ce
       \<and> same_client c0 (snd (load_schemas c0 ce n ctx)) ce
       \<and> same_client c0 (snd (load_tables c0 ce n catalog ctx)) ce
       \<and> same_client c0 (snd (show_detail c0 ce n catalog schema ctx)) ce)
   \<and> (same_client c0 c1 ce \<longrightarrow>
        fst (load_catalogs c1 ce) = fst (load_catalogs c0 ce)
        \<and> fst (load_schemas c1 ce n ctx) = fst (load_schemas c0 ce n ctx)
        \<and> fst (load_tables c1 ce n catalog ctx) = fst (load_tables c0 ce n catalog ctx)
        \<and> fst (show_detail c1 ce n catalog schema ctx) = fst (show_detail c0 ce n catalog schema ctx))
   \<and> (path_cache s = None \<and> discover_try e = Inl x \<longrightarrow>
        view_exception render s e (Inr q) = Some no_warehouse
        \<and> view_exception render' (snd (try_view render s e (Inr q))) e' (Inr q') = Some no_warehouse
        \<and> fst (run_query (snd (run_query s q e)) q' e') = Inl no_warehouse)"
proof -
  have p0: "\<exists>c. fst (load_catalogs c0 ce) = Inr c"
    by (rule load_catalogs_total)
  have p1: "catalog_exception c0 ce (catalogs_list ce) = Some x \<longrightarrow>
      fst (load_catalogs c0 ce) = Inr (error_alert (str_exn x))"
    using load_catalogs_error by blast
  have p2: "\<exists>out. fst (load_schemas c0 ce n (DictId ty cat # rest)) = Inr out"
    by (rule load_schemas_total)
  have p3: "py_any n \<and> catalog_exception c0 ce (schemas_list ce cat) = Some x \<longrightarrow>
      fst (load_schemas c0 ce n (DictId ty cat # rest))
        = Inr (Update (error_alert (str_exn x)), NoUpdate)"
    using load_schemas_error by blast
  have p4: "\<exists>out. fst (load_tables c0 ce n catalog ctx) = Inr out"
    by (rule load_tables_total)
  have p5: "cat \<noteq> [] \<and> catalog_exception c0 ce (tables_list ce cat sch) = Some x \<longrightarrow>
      fst (load_tables c0 ce n (Some cat) (DictId ''schema-item'' sch # rest))
        = Inr (Update (error_alert (str_exn x)), NoUpdate)"
    using load_tables_error by blast
  have p6: "\<exists>out. fst (show_detail c0 ce n catalog schema ctx) = Inr out"
    by (rule show_detail_total)
  have p7: "cat \<noteq> [] \<and> sch \<noteq> []
      \<and> catalog_exception c0 ce (tables_get ce (cat @ ''.'' @ sch @ ''.'' @ tbl)) = Some x \<longrightarrow>
      fst (show_detail c0 ce n (Some cat) (Some sch) (DictId ''table-item'' tbl # rest))
        = Inr (Update (error_alert (str_exn x)))"
    using show_detail_error by blast
  have p8: "\<exists>c. fst (sales_update_kpis render s e years status) = Inr c"
    unfolding sales_update_kpis_def by (rule try_view_total)
  have p9: "view_exception render s e (sales_kpis_query years status) = Some x \<longrightarrow>
      fst (sales_update_kpis render s e years status) = Inr (error_alert (str_exn x))"
    unfolding sales_update_kpis_def using try_view_error by blast
  have p10: "\<exists>c. fst (update_trend render s e years status) = Inr c"
    unfolding update_trend_def by (rule try_view_total)
  have p11: "view_exception render s e (sales_trend_query years status) = Some x \<longrightarrow>
      fst (update_trend render s e years status) = Inr (error_alert (str_exn x))"
    unfolding update_trend_def using try_view_error by blast
  have p12: "\<exists>c. fst (update_region render s e years status) = Inr c"
    unfolding update_region_def by (rule try_view_total)
  have p13: "view_exception render s e (sales_region_query years status) = Some x \<longrightarrow>
      fst (update_region render s e years status) = Inr (error_alert (str_exn x))"
    unfolding update_region_def using try_view_error by blast
  have p14: "\<exists>c. fst (update_customers render s e years status topn) = Inr c"
    unfolding update_customers_def by (rule try_view_total)
  have p15: "view_exception render s e (sales_customers_query years status topn) = Some x \<longrightarrow>
      fst (update_customers render s e years status topn) = Inr (error_alert (str_exn x))"
    unfolding update_customers_def using try_view_error by blast
  have p16: "\<exists>c. fst (taxi_update_kpis render s e fare dist) = Inr c"
    unfolding taxi_update_kpis_def by (rule try_view_total)
  have p17: "view_exception render s e (taxi_kpis_query fare dist) = Some x \<longrightarrow>
      fst (taxi_update_kpis render s e fare dist) = Inr (error_alert (str_exn x))"
    unfolding taxi_update_kpis_def using try_view_error by blast
  have p18: "\<exists>c. fst (update_distributions render s e fare dist sample) = Inr c"
    unfolding update_distributions_def by (rule try_view_total)
  have p19: "view_exception render s e (taxi_distributions_query fare dist sample) = Some x \<longrightarrow>
      fst (update_distributions render s e fare dist sample) = Inr (error_alert (str_exn x))"
    unfolding update_distributions_def using try_view_error by blast
  have p20: "\<exists>c. fst (update_hourly render s e fare dist) = Inr c"
    unfolding update_hourly_def by (rule try_view_total)
  have p21: "view_exception render s e (taxi_hourly_query fare dist) = Some x \<longrightarrow>
      fst (update_hourly render s e fare dist) = Inr (error_alert (str_exn x))"
    unfolding update_hourly_def using try_view_error by blast
  have p22: "\<exists>c. fst (update_scatter render s e fare dist sample) = Inr c"
    unfolding update_scatter_def by (rule try_view_total)
  have p23: "view_exception render s e (taxi_scatter_query fare dist sample) = Some x \<longrightarrow>
      fst (update_scatter render s e fare dist sample) = Inr (error_alert (str_exn x))"
    unfolding update_scatter_def using try_view_error by blast
  have p24: "\<not> is_blank (Some q) \<and> fst (run_query s (safe_statement q m) e) = Inl x \<longrightarrow>
      fst (run_sql cd s e (Some q) m) = ([error_alert (str_exn x)], None)"
    using run_sql_error by blast
  have p25: "\<exists>pre. error_alert msg
         = Elem ''dbc.Alert'' [(''color'', ''danger''), (''className'', ''mt-3'')] [Text (pre @ msg)]"
    by (rule error_alert_message)
  have p26_0: "same_answers s (snd (sales_update_kpis render s e years status)) e"
    unfolding sales_update_kpis_def by (rule same_answers_try_view)
  have p26_1: "same_answers s (snd (update_trend render s e years status)) e"
    unfolding update_trend_def by (rule same_answers_try_view)
  have p26_2: "same_answers s (snd (update_region render s e years status)) e"
    unfolding update_region_def by (rule same_answers_try_view)
  have p26_3: "same_answers s (snd (update_customers render s e years status topn)) e"
    unfolding update_customers_def by (rule same_answers_try_view)
  have p26_4: "same_answers s (snd (taxi_update_kpis render s e fare dist)) e"
    unfolding taxi_update_kpis_def by (rule same_answers_try_view)
  have p26_5: "same_answers s (snd (update_distributions render s e fare dist sample)) e"
    unfolding update_distributions_def by (rule same_answers_try_view)
  have p26_6: "same_answers s (snd (update_hourly render s e fare dist)) e"
    unfolding update_hourly_def by (rule same_answers_try_view)
  have p26_7: "same_answers s (snd (update_scatter render s e fare dist sample)) e"
    unfolding update_scatter_def by (rule same_answers_try_view)
  have p26_8: "same_answers s (snd (run_sql cd s e query m)) e"
    by (rule same_answers_run_sql)
  have p27: "same_answers s s' e \<longrightarrow>
        fst (sales_update_kpis render s' e years status) = fst (sales_update_kpis render s e years status)
        \<and> fst (update_trend render s' e years status) = fst (update_trend render s e years status)
        \<and> fst (update_region render s' e years status) = fst (update_region render s e years status)
        \<and> fst (update_customers render s' e years status topn)
            = fst (update_customers render s e years status topn)
        \<and> fst (taxi_update_kpis render s' e fare dist) = fst (taxi_update_kpis render s e fare dist)
        \<and> fst (update_distributions render s' e fare dist sample)
            = fst (update_distributions render s e fare dist sample)
        \<and> fst (update_hourly render s' e fare dist) = fst (update_hourly render s e fare dist)
        \<and> fst (update_scatter render s' e fare dist sample)
            = fst (update_scatter render s e fare dist sample)
        \<and> fst (run_sql cd s' e query m) = fst (run_sql cd s e query m)"
    unfolding sales_update_kpis_def update_trend_def update_region_def update_customers_def
      taxi_update_kpis_def update_distributions_def update_hourly_def update_scatter_def
    by (intro impI conjI same_answers_views)
  have p28_0: "same_client c0 (snd (load_catalogs c0 ce)) ce"
    by (rule same_client_callbacks)
  have p28_1: "same_client c0 (snd (load_schemas c0 ce n ctx)) ce"
    by (rule same_client_callbacks)
  have p28_2: "same_client c0 (snd (load_tables c0 ce n catalog ctx)) ce"
    by (rule same_client_callbacks)
  have p28_3: "same_client c0 (snd (show_detail c0 ce n catalog schema ctx)) ce"
    by (rule same_client_callbacks)
  have p29: "same_client c0 c1 ce \<longrightarrow>
        fst (load_catalogs c1 ce) = fst (load_catalogs c0 ce)
        \<and> fst (load_schemas c1 ce n ctx) = fst (load_schemas c0 ce n ctx)
        \<and> fst (load_tables c1 ce n catalog ctx) = fst (load_tables c0 ce n catalog ctx)
        \<and> fst (show_detail c1 ce n catalog schema ctx) = fst (show_detail c0 ce n catalog schema ctx)"
    by (intro impI conjI same_client_outputs)
  have p30: "path_cache s = None \<and> discover_try e = Inl x \<longrightarrow>
        view_exception render s e (Inr q) = Some no_warehouse
        \<and> view_exception render' (snd (try_view render s e (Inr q))) e' (Inr q') = Some no_warehouse
        \<and> fst (run_query (snd (run_query s q e)) q' e') = Inl no_warehouse"
    using discovery_swallowed discovery_memoized discovery_memoized_query by blast
  show ?thesis
    by (intro conjI; fact)
qed

lemma view_exception_render:
  "view_exception failing_render sql_client_init (env_conn 1) (sales_kpis_query [1994, 1997] ''ALL'')
     = Some (Exception ''single positional indexer is out-of-bounds'')"
  by (simp add: view_exception_def sales_kpis_query_def run_query_def get_warehouse_http_path_def
      get_connection_def lru_cache1_def sql_client_init_def env_conn_def
      get_warehouse_http_path_body_def discover_try_def failing_render_def warehouse_path_def)

lemma view_exception_connect:
  "view_exception failing_render sql_client_init env_refused (taxi_scatter_query [0, 100] [0, 20] 10000)
     = Some (Exception ''connection refused'')"
  by (simp add: view_exception_def taxi_scatter_query_def where_clause_def run_query_def
      get_warehouse_http_path_def get_connection_def lru_cache1_def sql_client_init_def
      env_refused_def get_warehouse_http_path_body_def discover_try_def warehouse_path_def)

lemma view_exception_index:
  "view_exception failing_render sql_client_init env_down (taxi_hourly_query [0] [0, 20])
     = Some (Exception ''list index out of range'')"
  by (simp add: view_exception_def taxi_hourly_query_def where_clause_def index_error_def)

lemma catalog_exception_listing:
  "catalog_exception None broken_catalog (catalogs_list broken_catalog)
     = Some (Exception ''PERMISSION_DENIED'')"
  by (simp add: catalog_exception_def client_def lru_cache1_def broken_catalog_def)

lemma run_query_no_warehouse:
  "\<not> is_blank (Some ''SELECT 1'')
   \<and> fst (run_query sql_client_init (safe_statement ''SELECT 1'' None) env_down)
       = Inl (RuntimeError ''No SQL warehouse available.'')"
  by code_simp

lemma discovery_down:
  "path_cache sql_client_init = None
   \<and> discover_try env_down = Inl (Exception ''cannot configure default credentials'')"
  by (simp add: sql_client_init_def discover_try_def env_down_def)

theorem errors_rendered_in_place_witness:
  "fst (sales_update_kpis failing_render sql_client_init (env_conn 1) [1994, 1997] ''ALL'')
     = Inr (error_alert ''single positional indexer is out-of-bounds'')
   \<and> fst (update_scatter failing_render sql_client_init env_refused [0, 100] [0, 20] 10000)
       = Inr (error_alert ''connection refused'')
   \<and> fst (update_hourly failing_render sql_client_init env_down [0] [0, 20])
       = Inr (error_alert ''list index out of range'')
   \<and> fst (load_catalogs None broken_catalog) = Inr (error_alert ''PERMISSION_DENIED'')
   \<and> fst (run_sql plain_codec sql_client_init env_down (Some ''SELECT 1'') None)
       = ([error_alert ''No SQL warehouse available.''], None)
   \<and> fst (update_trend failing_render
             (snd (update_scatter failing_render sql_client_init env_refused [0, 100] [0, 20] 10000))
             env_refused [1994, 1997] ''ALL'')
       = fst (update_trend failing_render sql_client_init env_refused [1994, 1997] ''ALL'')
   \<and> fst (load_schemas (snd (load_catalogs None broken_catalog)) broken_catalog [Some 1]
             [DictId ''cat-item'' ''main''])
       = fst (load_schemas None broken_catalog [Some 1] [DictId ''cat-item'' ''main''])
   \<and> view_exception failing_render
         (snd (try_view failing_render sql_client_init env_down (Inr ''SELECT 1'')))
         (env_conn 1) (Inr ''SELECT 2'')
       = Some (RuntimeError ''No SQL warehouse available.'')"
proof -
  have a: "fst (sales_update_kpis failing_render sql_client_init (env_conn 1) [1994, 1997] ''ALL'')
     = Inr (error_alert (str_exn (Exception ''single positional indexer is out-of-bounds'')))"
    by (rule errors_rendered_in_place [THEN conjunct2, THEN conjunct2, THEN conjunct2, THEN conjunct2, THEN conjunct2, THEN conjunct2, THEN conjunct2, THEN conjunct2, THEN conjunct2, THEN conjunct1, THEN mp, OF view_exception_render])
  have b: "fst (update_scatter failing_render sql_client_init env_refused [0, 100] [0, 20] 10000)
       = Inr (error_alert (str_exn (Exception ''connection refused'')))"
    by (rule errors_rendered_in_place [THEN conjunct2, THEN conjunct2, THEN conjunct2, THEN conjunct2, THEN conjunct2, THEN conjunct2, THEN conjunct2, THEN conjunct2, THEN conjunct2, THEN conjunct2, THEN conjunct2, THEN conjunct2, THEN conjunct2, THEN conjunct2, THEN conjunct2, THEN conjunct2, THEN conjunct2, THEN conjunct2, THEN conjunct2, THEN conjunct2, THEN conjunct2, THEN conjunct2, THEN conjunct2, THEN conjunct1, THEN mp, OF view_exception_connect])
  have c: "fst (update_hourly failing_render sql_client_init env_down [0] [0, 20])
       = Inr (error_alert (str_exn (Exception ''list index out of range'')))"
    by (rule errors_rendered_in_place [THEN conjunct2, THEN conjunct2, THEN conjunct2, THEN conjunct2, THEN conjunct2, THEN conjunct2, THEN conjunct2, THEN conjunct2, THEN conjunct2, THEN conjunct2, THEN conjunct2, THEN conjunct2, THEN conjunct2, THEN conjunct2, THEN conjunct2, THEN conjunct2, THEN conjunct2, THEN conjunct2, THEN conjunct2, THEN conjunct2, THEN conjunct2, THEN conjunct1, THEN mp, OF view_exception_index])
  have d: "fst (load_catalogs None broken_catalog)
       = Inr (error_alert (str_exn (Exception ''PERMISSION_DENIED'')))"
    by (rule errors_rendered_in_place [THEN conjunct2, THEN conjunct1, THEN mp, OF catalog_exception_listing])
  have f: "fst (run_sql plain_codec sql_client_init env_down (Some ''SELECT 1'') None)
       = ([error_alert (str_exn (RuntimeError ''No SQL warehouse available.''))], None)"
    by (rule errors_rendered_in_place [THEN conjunct2, THEN conjunct2, THEN conjunct2, THEN conjunct2, THEN conjunct2, THEN conjunct2, THEN conjunct2, THEN conjunct2, THEN conjunct2, THEN conjunct2, THEN conjunct2, THEN conjunct2, THEN conjunct2, THEN conjunct2, THEN conjunct2, THEN conjunct2, THEN conjunct2, THEN conjunct2, THEN conjunct2, THEN conjunct2, THEN conjunct2, THEN conjunct2, THEN conjunct2, THEN conjunct2, THEN conjunct1, THEN mp, OF run_query_no_warehouse])
  have g1: "same_answers sql_client_init
              (snd (update_scatter failing_render sql_client_init env_refused [0, 100] [0, 20] 10000))
              env_refused"
    by (rule errors_rendered_in_place [THEN conjunct2, THEN conjunct2, THEN conjunct2, THEN conjunct2, THEN conjunct2, THEN conjunct2, THEN conjunct2, THEN conjunct2, THEN conjunct2, THEN conjunct2, THEN conjunct2, THEN conjunct2, THEN conjunct2, THEN conjunct2, THEN conjunct2, THEN conjunct2, THEN conjunct2, THEN conjunct2, THEN conjunct2, THEN conjunct2, THEN conjunct2, THEN conjunct2, THEN conjunct2, THEN conjunct2, THEN conjunct2, THEN conjunct2, THEN conjunct1, THEN conjunct2, THEN conjunct2, THEN conjunct2, THEN conjunct2, THEN conjunct2, THEN conjunct2, THEN conjunct2, THEN conjunct1])
  have g: "fst (update_trend failing_render
             (snd (update_scatter failing_render sql_client_init env_refused [0, 100] [0, 20] 10000))
             env_refused [1994, 1997] ''ALL'')
       = fst (update_trend failing_render sql_client_init env_refused [1994, 1997] ''ALL'')"
    by (rule errors_rendered_in_place [THEN conjunct2, THEN conjunct2, THEN conjunct2, THEN conjunct2, THEN conjunct2, THEN conjunct2, THEN conjunct2, THEN conjunct2, THEN conjunct2, THEN conjunct2, THEN conjunct2, THEN conjunct2, THEN conjunct2, THEN conjunct2, THEN conjunct2, THEN conjunct2, THEN conjunct2, THEN conjunct2, THEN conjunct2, THEN conjunct2, THEN conjunct2, THEN conjunct2, THEN conjunct2, THEN conjunct2, THEN conjunct2, THEN conjunct2, THEN conjunct2, THEN conjunct1, THEN mp, OF g1, THEN conjunct2, THEN conjunct1])
  have h1: "same_client None (snd (load_catalogs None broken_catalog)) broken_catalog"
    by (rule errors_rendered_in_place [THEN conjunct2, THEN conjunct2, THEN conjunct2, THEN conjunct2, THEN conjunct2, THEN conjunct2, THEN conjunct2, THEN conjunct2, THEN conjunct2, THEN conjunct2, THEN conjunct2, THEN conjunct2, THEN conjunct2, THEN conjunct2, THEN conjunct2, THEN conjunct2, THEN conjunct2, THEN conjunct2, THEN conjunct2, THEN conjunct2, THEN conjunct2, THEN conjunct2, THEN conjunct2, THEN conjunct2, THEN conjunct2, THEN conjunct2, THEN conjunct2, THEN conjunct2, THEN conjunct1, THEN conjunct1])
  have h: "fst (load_schemas (snd (load_catalogs None broken_catalog)) broken_catalog [Some 1]
             [DictId ''cat-item'' ''main''])
       = fst (load_schemas None broken_catalog [Some 1] [DictId ''cat-item'' ''main''])"
    by (rule errors_rendered_in_place [THEN conjunct2, THEN conjunct2, THEN conjunct2, THEN conjunct2, THEN conjunct2, THEN conjunct2, THEN conjunct2, THEN conjunct2, THEN conjunct2, THEN conjunct2, THEN conjunct2, THEN conjunct2, THEN conjunct2, THEN conjunct2, THEN conjunct2, THEN conjunct2, THEN conjunct2, THEN conjunct2, THEN conjunct2, THEN conjunct2, THEN conjunct2, THEN conjunct2, THEN conjunct2, THEN conjunct2, THEN conjunct2, THEN conjunct2, THEN conjunct2, THEN conjunct2, THEN conjunct2, THEN conjunct1, THEN mp, OF h1, THEN conjunct2, THEN conjunct1])
  have i: "view_exception failing_render
         (snd (try_view failing_render sql_client_init env_down (Inr ''SELECT 1'')))
         (env_conn 1) (Inr ''SELECT 2'')
       = Some no_warehouse"
    by (rule errors_rendered_in_place [THEN conjunct2, THEN conjunct2, THEN conjunct2, THEN conjunct2, THEN conjunct2, THEN conjunct2, THEN conjunct2, THEN conjunct2, THEN conjunct2, THEN conjunct2, THEN conjunct2, THEN conjunct2, THEN conjunct2, THEN conjunct2, THEN conjunct2, THEN conjunct2, THEN conjunct2, THEN conjunct2, THEN conjunct2, THEN conjunct2, THEN conjunct2, THEN conjunct2, THEN conjunct2, THEN conjunct2, THEN conjunct2, THEN conjunct2, THEN conjunct2, THEN conjunct2, THEN conjunct2, THEN conjunct2, THEN mp, OF discovery_down, THEN conjunct2, THEN conjunct1])
  from a b c d f have k: "fst (sales_update_kpis failing_render sql_client_init (env_conn 1) [1994, 1997] ''ALL'')
     = Inr (error_alert ''single positional indexer is out-of-bounds'')
   \<and> fst (update_scatter failing_render sql_client_init env_refused [0, 100] [0, 20] 10000)
       = Inr (error_alert ''connection refused'')
   \<and> fst (update_hourly failing_render sql_client_init env_down [0] [0, 20])
       = Inr (error_alert ''list index out of range'')
   \<and> fst (load_catalogs None broken_catalog) = Inr (error_alert ''PERMISSION_DENIED'')
   \<and> fst (run_sql plain_codec sql_client_init env_down (Some ''SELECT 1'') None)
       = ([error_alert ''No SQL warehouse available.''], None)"
    by (simp only: str_exn.simps)
  from i have i': "view_exception failing_render
         (snd (try_view failing_render sql_client_init env_down (Inr ''SELECT 1'')))
         (env_conn 1) (Inr ''SELECT 2'')
       = Some (RuntimeError ''No SQL warehouse available.'')"
    by (simp only: no_warehouse_def)
  from k g h i' show ?thesis by blast
qed

text \<open>
  Claim C5 as stated fails: when \<open>WorkspaceClient()\<close> raises while the key figures of
  the sales page are computed, the exception is caught inside
  \<open>get_warehouse_http_path\<close>, not at the view, and the alert shown carries "No SQL
  warehouse available.", not the exception's message. The failed call also alters a
  sibling view: the trend view, which renders its frame when it is called in a working
  environment, shows the same alert there when it is called after the failed view.
\<close>

theorem swallowed_discovery_counterexample:
  "discover_try env_down = Inl (Exception ''cannot configure default credentials'')
   \<and> fst (sales_update_kpis failing_render sql_client_init env_down [1994, 1997] ''ALL'')
       = Inr (Elem ''dbc.Alert'' [(''color'', ''danger''), (''className'', ''mt-3'')]
                [Text (warning_sign @ '' No SQL warehouse available.'')])
   \<and> \<not> contains ''cannot configure default credentials''
         (warning_sign @ '' No SQL warehouse available.'')
   \<and> fst (update_trend (\<lambda>df. Inr (DataTable df)) sql_client_init (env_conn 1) [1994, 1997] ''ALL'')
       = Inr (DataTable no_frame)
   \<and> fst (update_trend (\<lambda>df. Inr (DataTable df))
             (snd (sales_update_kpis failing_render sql_client_init env_down [1994, 1997] ''ALL''))
             (env_conn 1) [1994, 1997] ''ALL'')
       = Inr (Elem ''dbc.Alert'' [(''color'', ''danger''), (''className'', ''mt-3'')]
                [Text (warning_sign @ '' No SQL warehouse available.'')])"
  by code_simp

section \<open>Concurrent first calls\<close>

lemma sum_list_map_update:
  fixes f :: "'a \<Rightarrow> nat"
  shows "i < length xs \<Longrightarrow> sum_list (map f (xs[i := y])) + f (xs ! i) = sum_list (map f xs) + f y"
proof (induction xs arbitrary: i)
  case Nil
  then show ?case by simp
next
  case (Cons x xs)
  then show ?case by (cases i) auto
qed

lemma sum_list_moved_on: "sum_list (map moved_on xs) \<le> length xs"
proof (induction xs)
  case Nil
  show ?case by simp
next
  case (Cons x xs)
  have "moved_on x \<le> 1" by (simp add: moved_on_def split: phase.splits)
  with Cons show ?case by simp
qed

lemma conc_step_out_of_range:
  "length (callers st) \<le> i \<or> length outcomes \<le> i \<Longrightarrow> conc_step k outcomes st i = st"
  by (simp add: conc_step_def)

lemma conc_step_length: "length (callers (conc_step k outcomes st i)) = length (callers st)"
  by (simp add: conc_step_def split: phase.splits option.splits sum.splits prod.splits)

lemma conc_step_stored_keeps:
  "stored st = Some (k, v) \<Longrightarrow> stored (conc_step k outcomes st i) = Some (k, v)"
  by (simp add: conc_step_def split: phase.splits option.splits sum.splits prod.splits)

lemma conc_step_stored_origin:
  assumes "stored (conc_step k outcomes st i) = Some (k', v)"
  shows "stored st = Some (k', v)
         \<or> (k' = k \<and> i < length outcomes \<and> i < length (callers st) \<and> callers st ! i = Called (Inr v))"
  using assms
  by (auto simp: conc_step_def split: phase.splits option.splits sum.splits prod.splits if_splits)

lemma conc_step_other:
  "j \<noteq> i \<Longrightarrow> callers (conc_step k outcomes st i) ! j = callers st ! j"
  by (simp add: conc_step_def split: phase.splits option.splits sum.splits prod.splits)

lemma conc_step_count:
  "runs (conc_step k outcomes st i) + sum_list (map moved_on (callers st))
     \<le> runs st + sum_list (map moved_on (callers (conc_step k outcomes st i)))"
proof (cases "length (callers st) \<le> i \<or> length outcomes \<le> i")
  case True
  then show ?thesis by (simp add: conc_step_out_of_range)
next
  case False
  then have i: "i < length (callers st)" "i < length outcomes" by simp_all
  note u = sum_list_map_update [OF i(1), of moved_on]
  show ?thesis
  proof (cases "callers st ! i")
    case Ready
    with i u [of Missed] u [of "Returned (Inr undefined)"] show ?thesis
      using u by (auto simp: conc_step_def moved_on_def split: option.splits)
  next
    case Missed
    with i u [of "Called (outcomes ! i)"] show ?thesis
      by (simp add: conc_step_def moved_on_def)
  next
    case (Called r)
    show ?thesis
    proof (cases r)
      case (Inl x)
      with Called i u [of "Returned (Inl x)"] show ?thesis
        by (simp add: conc_step_def moved_on_def)
    next
      case (Inr v)
      with Called i u [of "Returned (Inr v)"] show ?thesis
        by (simp add: conc_step_def moved_on_def split: option.splits)
    qed
  next
    case (Returned r)
    with i show ?thesis by (simp add: conc_step_def)
  qed
qed

lemma conc_step_called:
  assumes "callers (conc_step k outcomes st i) ! j = Called r" "j < length outcomes"
  shows "callers st ! j = Called r \<or> r = outcomes ! j"
proof (cases "j = i")
  case False
  with assms show ?thesis by (simp add: conc_step_other)
next
  case True
  with assms show ?thesis
    by (auto simp: conc_step_def split: phase.splits option.splits sum.splits if_splits)
qed

lemma conc_step_returned:
  assumes "callers (conc_step k outcomes st i) ! j = Returned r" "j < length outcomes"
  shows "callers st ! j = Returned r
         \<or> (\<exists>v. r = Inr v \<and> stored (conc_step k outcomes st i) = Some (k, v))
         \<or> (\<exists>x. r = Inl x \<and> callers st ! j = Called r)
         \<or> (\<exists>v. r = Inr v \<and> callers st ! j = Called r)"
proof (cases "j = i")
  case False
  with assms show ?thesis by (simp add: conc_step_other)
next
  case True
  with assms show ?thesis
    by (auto simp: conc_step_def split: phase.splits option.splits sum.splits if_splits)
qed

lemma race_invariant_start: "race_invariant k outcomes (conc_start (length outcomes))"
  by (auto simp: race_invariant_def conc_start_def)

lemma race_invariant_step:
  assumes "race_invariant k outcomes st"
  shows "race_invariant k outcomes (conc_step k outcomes st i)"
proof -
  let ?st = "conc_step k outcomes st i"
  from assms have len: "length (callers st) = length outcomes"
    and cnt: "runs st \<le> sum_list (map moved_on (callers st))"
    and sto: "\<And>k' v. stored st = Some (k', v) \<Longrightarrow> k' = k \<and> Inr v \<in> set outcomes"
    and cal: "\<And>i r. i < length outcomes \<Longrightarrow> callers st ! i = Called r \<Longrightarrow> r = outcomes ! i"
    and ret: "\<And>i r. i < length outcomes \<Longrightarrow> callers st ! i = Returned r \<Longrightarrow>
                r = outcomes ! i \<or> (\<exists>v. r = Inr v \<and> stored st = Some (k, v))"
    unfolding race_invariant_def by blast+
  have 1: "length (callers ?st) = length outcomes"
    using len by (simp add: conc_step_length)
  have 2: "runs ?st \<le> sum_list (map moved_on (callers ?st))"
    using cnt conc_step_count [of k outcomes st i] by linarith
  have 3: "k' = k \<and> Inr v \<in> set outcomes" if "stored ?st = Some (k', v)" for k' v
  proof -
    from conc_step_stored_origin [OF that]
    consider "stored st = Some (k', v)"
      | "k' = k" "i < length outcomes" "callers st ! i = Called (Inr v)"
      by blast
    then show ?thesis
    proof cases
      case 1
      then show ?thesis by (rule sto)
    next
      case 2
      from cal [OF 2(2,3)] 2(2) have "Inr v \<in> set outcomes" by (metis nth_mem)
      with 2(1) show ?thesis by simp
    qed
  qed
  have 4: "r = outcomes ! j" if "j < length outcomes" "callers ?st ! j = Called r" for j r
    using conc_step_called [OF that(2,1)] cal [OF that(1)] by blast
  have 5: "r = outcomes ! j \<or> (\<exists>v. r = Inr v \<and> stored ?st = Some (k, v))"
    if "j < length outcomes" "callers ?st ! j = Returned r" for j r
  proof -
    from conc_step_returned [OF that(2,1)]
    consider "callers st ! j = Returned r"
      | "\<exists>v. r = Inr v \<and> stored ?st = Some (k, v)"
      | "callers st ! j = Called r"
      by blast
    then show ?thesis
    proof cases
      case 1
      from ret [OF that(1) 1] show ?thesis
        by (auto simp: conc_step_stored_keeps)
    next
      case 2
      then show ?thesis by blast
    next
      case 3
      from cal [OF that(1) 3] show ?thesis by blast
    qed
  qed
  show ?thesis
    unfolding race_invariant_def using 1 2 3 4 5 by blast
qed

lemma race_invariant_run:
  "race_invariant k outcomes st \<Longrightarrow> race_invariant k outcomes (run_schedule k outcomes schedule st)"
  unfolding run_schedule_def
  by (induction schedule arbitrary: st) (simp_all add: race_invariant_step)

lemma race_invariant_outcome:
  assumes "race_invariant k outcomes st"
  shows "race_outcome k outcomes st"
proof -
  from assms have "runs st \<le> sum_list (map moved_on (callers st))"
    and "length (callers st) = length outcomes"
    unfolding race_invariant_def by blast+
  with sum_list_moved_on [of "callers st"] have "runs st \<le> length outcomes" by simp
  with assms show ?thesis unfolding race_invariant_def race_outcome_def by blast
qed

lemma race_outcome_run:
  "race_outcome k outcomes (run_schedule k outcomes schedule (conc_start (length outcomes)))"
  by (intro race_invariant_outcome race_invariant_run race_invariant_start)

lemma run_schedule_stored_keeps:
  "stored st = Some (k, v) \<Longrightarrow> stored (run_schedule k outcomes schedule st) = Some (k, v)"
  unfolding run_schedule_def
  by (induction schedule arbitrary: st) (simp_all add: conc_step_stored_keeps)

lemma late_lookup:
  assumes "stored st = Some (k, v)" "i < length (callers st)" "i < length outcomes"
    "callers st ! i = Ready"
  shows "conc_step k outcomes st i = st\<lparr>callers := (callers st)[i := Returned (Inr v)]\<rparr>"
  using assms by (simp add: conc_step_def)

lemma settled_step:
  assumes "settled k v n st"
  shows "settled k v n (conc_step k outcomes st i)"
proof (cases "length (callers st) \<le> i \<or> length outcomes \<le> i")
  case True
  with assms show ?thesis by (simp add: conc_step_out_of_range)
next
  case False
  from assms have s: "stored st = Some (k, v)" "runs st = 1" "length (callers st) = n"
    and c: "\<And>j. j < n \<Longrightarrow> callers st ! j = Ready \<or> callers st ! j = Returned (Inr v)"
    unfolding settled_def by blast+
  from False s have i: "i < n" "i < length outcomes" by simp_all
  from c [OF i(1)] show ?thesis
  proof
    assume r: "callers st ! i = Ready"
    with s i have "conc_step k outcomes st i = st\<lparr>callers := (callers st)[i := Returned (Inr v)]\<rparr>"
      by (simp add: conc_step_def)
    with s c i show ?thesis
      by (auto simp: settled_def nth_list_update)
  next
    assume "callers st ! i = Returned (Inr v)"
    with s i have "conc_step k outcomes st i = st" by (simp add: conc_step_def)
    with assms show ?thesis by simp
  qed
qed

lemma settled_step_returns:
  assumes "settled k v n st" "i < n" "i < length outcomes"
  shows "callers (conc_step k outcomes st i) ! i = Returned (Inr v)"
proof -
  from assms have s: "stored st = Some (k, v)" "length (callers st) = n"
    and c: "callers st ! i = Ready \<or> callers st ! i = Returned (Inr v)"
    unfolding settled_def by blast+
  from c show ?thesis
    using s assms(2,3) by (auto simp: conc_step_def)
qed

lemma settled_step_keeps:
  assumes "settled k v n st" "j < n" "callers st ! j = Returned (Inr v)"
  shows "callers (conc_step k outcomes st i) ! j = Returned (Inr v)"
proof (cases "j = i")
  case False
  with assms show ?thesis by (simp add: conc_step_other)
next
  case True
  with assms show ?thesis by (auto simp: conc_step_def settled_def)
qed

lemma settled_run:
  assumes "settled k v n st"
  shows "settled k v n (run_schedule k outcomes schedule st)
         \<and> (\<forall>j < n. callers st ! j = Returned (Inr v) \<longrightarrow>
               callers (run_schedule k outcomes schedule st) ! j = Returned (Inr v))
         \<and> (\<forall>i \<in> set schedule. i < n \<and> i < length outcomes \<longrightarrow>
               callers (run_schedule k outcomes schedule st) ! i = Returned (Inr v))"
  using assms unfolding run_schedule_def
proof (induction schedule arbitrary: st)
  case Nil
  then show ?case by simp
next
  case (Cons i schedule)
  let ?st = "conc_step k outcomes st i"
  have s: "settled k v n ?st" by (rule settled_step [OF Cons.prems])
  note ih = Cons.IH [OF s]
  have keep: "\<And>j. j < n \<Longrightarrow> callers st ! j = Returned (Inr v) \<Longrightarrow> callers ?st ! j = Returned (Inr v)"
    by (rule settled_step_keeps [OF Cons.prems])
  have here: "i < n \<and> i < length outcomes \<longrightarrow> callers ?st ! i = Returned (Inr v)"
    using settled_step_returns [OF Cons.prems] by blast
  from ih keep here show ?case by (simp del: One_nat_def)
qed

lemma first_caller_alone:
  assumes "i < length outcomes" "outcomes ! i = Inr v"
  shows "settled k v (length outcomes) (run_schedule k outcomes [i, i, i] (conc_start (length outcomes)))"
    and "callers (run_schedule k outcomes [i, i, i] (conc_start (length outcomes))) ! i = Returned (Inr v)"
  using assms
  by (auto simp: run_schedule_def conc_step_def conc_start_def settled_def nth_list_update)

lemma run_schedule_append:
  "run_schedule k outcomes (xs @ ys) st = run_schedule k outcomes ys (run_schedule k outcomes xs st)"
  by (simp add: run_schedule_def)

lemma sequential_calls:
  assumes "i < length outcomes" "outcomes ! i = Inr v"
  shows "runs (run_schedule k outcomes ([i, i, i] @ rest) (conc_start (length outcomes))) = 1
         \<and> stored (run_schedule k outcomes ([i, i, i] @ rest) (conc_start (length outcomes))) = Some (k, v)
         \<and> (\<forall>j \<in> set (i # rest). j < length outcomes \<longrightarrow>
               callers (run_schedule k outcomes ([i, i, i] @ rest) (conc_start (length outcomes))) ! j
                 = Returned (Inr v))"
proof -
  let ?s1 = "run_schedule k outcomes [i, i, i] (conc_start (length outcomes))"
  note f = first_caller_alone [OF assms, of k]
  note r = settled_run [OF f(1), of outcomes rest]
  from r have "settled k v (length outcomes) (run_schedule k outcomes rest ?s1)" by blast
  then have a: "runs (run_schedule k outcomes rest ?s1) = 1"
    "stored (run_schedule k outcomes rest ?s1) = Some (k, v)"
    unfolding settled_def by blast+
  from r f(2) assms(1) have b: "callers (run_schedule k outcomes rest ?s1) ! i = Returned (Inr v)"
    by blast
  from r have c: "\<forall>j \<in> set rest. j < length outcomes \<longrightarrow>
               callers (run_schedule k outcomes rest ?s1) ! j = Returned (Inr v)"
    by blast
  from a b c show ?thesis
    unfolding run_schedule_append by simp
qed

lemma one_caller_is_lru_cache1:
  "run_schedule k [f k] [0, 0, 0] \<lparr>stored = c, runs = 0, callers = [Ready]\<rparr>
     = \<lparr>stored = snd (lru_cache1 f c k),
        runs = (case c of None \<Rightarrow> 1 | Some (k', v) \<Rightarrow> if k' = k then 0 else 1),
        callers = [Returned (fst (lru_cache1 f c k))]\<rparr>"
  by (auto simp: run_schedule_def conc_step_def lru_cache1_def split: option.splits sum.splits)

text \<open>
  Claim C9, as amended. Concurrent first calls of \<open>get_connection\<close> and of
  \<open>get_warehouse_http_path\<close>, in any interleaving of the steps of \<open>lru_cache\<close>: the
  computation runs at most once for each caller; a stored entry is the result of one of
  the callers' computations; a caller that has returned has returned the result of its own
  computation or the stored value. A stored value is never replaced, and a caller that
  looks up once a value is stored returns that value and computes nothing. When one call
  has been completed alone and its computation succeeded, the computation has run exactly
  once however the other callers are interleaved afterwards, and every caller that moves
  returns that one value. One caller alone does what the sequential cache does.
\<close>

theorem concurrent_first_calls:
  "race_outcome p (map (\<lambda>e. sql_connect e p) envs) (concurrent_get_connection p envs schedule)
   \<and> race_outcome () (map (\<lambda>e. Inr (get_warehouse_http_path_body e)) envs)
         (concurrent_get_warehouse_http_path envs schedule)
   \<and> (stored st = Some (k, v) \<longrightarrow> stored (run_schedule k outcomes schedule st) = Some (k, v))
   \<and> (stored st = Some (k, v) \<and> i < length (callers st) \<and> i < length outcomes
        \<and> callers st ! i = Ready \<longrightarrow>
        conc_step k outcomes st i = st\<lparr>callers := (callers st)[i := Returned (Inr v)]\<rparr>)
   \<and> (i < length envs \<and> sql_connect (envs ! i) p = Inr c \<longrightarrow>
        runs (concurrent_get_connection p envs ([i, i, i] @ schedule)) = 1
        \<and> stored (concurrent_get_connection p envs ([i, i, i] @ schedule)) = Some (p, c)
        \<and> (\<forall>j \<in> set (i # schedule). j < length envs \<longrightarrow>
              callers (concurrent_get_connection p envs ([i, i, i] @ schedule)) ! j
                = Returned (Inr c)))
   \<and> (i < length envs \<longrightarrow>
        runs (concurrent_get_warehouse_http_path envs ([i, i, i] @ schedule)) = 1
        \<and> stored (concurrent_get_warehouse_http_path envs ([i, i, i] @ schedule))
            = Some ((), get_warehouse_http_path_body (envs ! i))
        \<and> (\<forall>j \<in> set (i # schedule). j < length envs \<longrightarrow>
              callers (concurrent_get_warehouse_http_path envs ([i, i, i] @ schedule)) ! j
                = Returned (Inr (get_warehouse_http_path_body (envs ! i)))))
   \<and> run_schedule k [f k] [0, 0, 0] \<lparr>stored = c0, runs = 0, callers = [Ready]\<rparr>
       = \<lparr>stored = snd (lru_cache1 f c0 k),
          runs = (case c0 of None \<Rightarrow> 1 | Some (k', v) \<Rightarrow> if k' = k then 0 else 1),
          callers = [Returned (fst (lru_cache1 f c0 k))]\<rparr>"
proof -
  have p1: "race_outcome p (map (\<lambda>e. sql_connect e p) envs) (concurrent_get_connection p envs schedule)"
    unfolding concurrent_get_connection_def
    using race_outcome_run [of p "map (\<lambda>e. sql_connect e p) envs" schedule] by simp
  have p2: "race_outcome () (map (\<lambda>e. Inr (get_warehouse_http_path_body e)) envs)
         (concurrent_get_warehouse_http_path envs schedule)"
    unfolding concurrent_get_warehouse_http_path_def
    using race_outcome_run [of "()" "map (\<lambda>e. Inr (get_warehouse_http_path_body e)) envs" schedule]
    by simp
  have p3: "stored st = Some (k, v) \<longrightarrow> stored (run_schedule k outcomes schedule st) = Some (k, v)"
    by (rule impI) (rule run_schedule_stored_keeps)
  have p4: "stored st = Some (k, v) \<and> i < length (callers st) \<and> i < length outcomes
        \<and> callers st ! i = Ready \<longrightarrow>
        conc_step k outcomes st i = st\<lparr>callers := (callers st)[i := Returned (Inr v)]\<rparr>"
    by (rule impI) (rule late_lookup, simp_all)
  have p5: "i < length envs \<and> sql_connect (envs ! i) p = Inr c \<longrightarrow>
        runs (concurrent_get_connection p envs ([i, i, i] @ schedule)) = 1
        \<and> stored (concurrent_get_connection p envs ([i, i, i] @ schedule)) = Some (p, c)
        \<and> (\<forall>j \<in> set (i # schedule). j < length envs \<longrightarrow>
              callers (concurrent_get_connection p envs ([i, i, i] @ schedule)) ! j
                = Returned (Inr c))"
  proof
    assume a: "i < length envs \<and> sql_connect (envs ! i) p = Inr c"
    then have "i < length (map (\<lambda>e. sql_connect e p) envs)"
      and "map (\<lambda>e. sql_connect e p) envs ! i = Inr c"
      by simp_all
    from sequential_calls [OF this, of p schedule]
    show "runs (concurrent_get_connection p envs ([i, i, i] @ schedule)) = 1
        \<and> stored (concurrent_get_connection p envs ([i, i, i] @ schedule)) = Some (p, c)
        \<and> (\<forall>j \<in> set (i # schedule). j < length envs \<longrightarrow>
              callers (concurrent_get_connection p envs ([i, i, i] @ schedule)) ! j
                = Returned (Inr c))"
      unfolding concurrent_get_connection_def by (simp del: One_nat_def)
  qed
  have p6: "i < length envs \<longrightarrow>
        runs (concurrent_get_warehouse_http_path envs ([i, i, i] @ schedule)) = 1
        \<and> stored (concurrent_get_warehouse_http_path envs ([i, i, i] @ schedule))
            = Some ((), get_warehouse_http_path_body (envs ! i))
        \<and> (\<forall>j \<in> set (i # schedule). j < length envs \<longrightarrow>
              callers (concurrent_get_warehouse_http_path envs ([i, i, i] @ schedule)) ! j
                = Returned (Inr (get_warehouse_http_path_body (envs ! i))))"
  proof
    assume a: "i < length envs"
    then have "i < length (map (\<lambda>e. Inr (get_warehouse_http_path_body e) :: exn + string option) envs)"
      and "map (\<lambda>e. Inr (get_warehouse_http_path_body e) :: exn + string option) envs ! i
             = Inr (get_warehouse_http_path_body (envs ! i))"
      by simp_all
    from sequential_calls [OF this, of "()" schedule]
    show "runs (concurrent_get_warehouse_http_path envs ([i, i, i] @ schedule)) = 1
        \<and> stored (concurrent_get_warehouse_http_path envs ([i, i, i] @ schedule))
            = Some ((), get_warehouse_http_path_body (envs ! i))
        \<and> (\<forall>j \<in> set (i # schedule). j < length envs \<longrightarrow>
              callers (concurrent_get_warehouse_http_path envs ([i, i, i] @ schedule)) ! j
                = Returned (Inr (get_warehouse_http_path_body (envs ! i))))"
      unfolding concurrent_get_warehouse_http_path_def by (simp del: One_nat_def)
  qed
  have p7: "run_schedule k [f k] [0, 0, 0] \<lparr>stored = c0, runs = 0, callers = [Ready]\<rparr>
       = \<lparr>stored = snd (lru_cache1 f c0 k),
          runs = (case c0 of None \<Rightarrow> 1 | Some (k', v) \<Rightarrow> if k' = k then 0 else 1),
          callers = [Returned (fst (lru_cache1 f c0 k))]\<rparr>"
    by (rule one_caller_is_lru_cache1)
  show ?thesis by (intro conjI; fact)
qed

lemma two_connections:
  "(1::nat) < length [env_conn 1, env_conn 2]
   \<and> sql_connect ([env_conn 1, env_conn 2] ! 1) ''/sql/1.0/warehouses/abc'' = Inr 2"
  by (simp add: env_conn_def)

theorem concurrent_first_calls_witness:
  "runs (concurrent_get_connection ''/sql/1.0/warehouses/abc'' [env_conn 1, env_conn 2] [0, 1, 0, 1, 0, 1]) \<le> 2
   \<and> runs (concurrent_get_connection ''/sql/1.0/warehouses/abc'' [env_conn 1, env_conn 2] [1, 1, 1, 0, 0, 0]) = 1
   \<and> stored (concurrent_get_connection ''/sql/1.0/warehouses/abc'' [env_conn 1, env_conn 2] [1, 1, 1, 0, 0, 0])
       = Some (''/sql/1.0/warehouses/abc'', 2)
   \<and> callers (concurrent_get_connection ''/sql/1.0/warehouses/abc'' [env_conn 1, env_conn 2] [1, 1, 1, 0, 0, 0]) ! 0
       = Returned (Inr 2)"
proof -
  note t1 = concurrent_first_calls [of "''/sql/1.0/warehouses/abc''" "[env_conn 1, env_conn 2]"
      "[0, 1, 0, 1, 0, 1]", THEN conjunct1]
  then have a: "runs (concurrent_get_connection ''/sql/1.0/warehouses/abc'' [env_conn 1, env_conn 2] [0, 1, 0, 1, 0, 1])
                  \<le> 2"
    unfolding race_outcome_def by simp
  note t2 = concurrent_first_calls [where p = "''/sql/1.0/warehouses/abc''" and envs = "[env_conn 1, env_conn 2]"
      and schedule = "[0, 0, 0]" and i = 1 and c = 2,
      THEN conjunct2, THEN conjunct2, THEN conjunct2, THEN conjunct2, THEN conjunct1, THEN mp,
      OF two_connections]
  from t2 have b: "runs (concurrent_get_connection ''/sql/1.0/warehouses/abc'' [env_conn 1, env_conn 2] [1, 1, 1, 0, 0, 0]) = 1"
    and c: "stored (concurrent_get_connection ''/sql/1.0/warehouses/abc'' [env_conn 1, env_conn 2] [1, 1, 1, 0, 0, 0])
       = Some (''/sql/1.0/warehouses/abc'', 2)"
    by (simp_all del: One_nat_def)
  from t2 have "\<forall>j \<in> set [1, 0, 0, 0]. j < length [env_conn 1, env_conn 2] \<longrightarrow>
       callers (concurrent_get_connection ''/sql/1.0/warehouses/abc'' [env_conn 1, env_conn 2] ([1, 1, 1] @ [0, 0, 0])) ! j
         = Returned (Inr 2)"
    by blast
  then have d: "callers (concurrent_get_connection ''/sql/1.0/warehouses/abc'' [env_conn 1, env_conn 2] [1, 1, 1, 0, 0, 0]) ! 0
       = Returned (Inr 2)"
    by simp
  from a b c d show ?thesis by blast
qed

text \<open>
  Claim C9 as stated fails. Two callers of \<open>get_connection\<close> both look up before either
  has stored: both miss, both connect, and both connections are made; the first to
  finish stores its connection, the second finds the key stored, stores nothing and
  returns its own connection. The computation has run twice, and the two callers
  hold different values. Two such callers of \<open>get_warehouse_http_path\<close> run discovery
  twice.
\<close>

theorem racing_calls_counterexample:
  "concurrent_get_connection ''/sql/1.0/warehouses/abc'' [env_conn 1, env_conn 2] [0, 1, 0, 1, 0, 1]
     = \<lparr>stored = Some (''/sql/1.0/warehouses/abc'', 1), runs = 2,
        callers = [Returned (Inr 1), Returned (Inr 2)]\<rparr>
   \<and> sql_connect (env_conn 1) ''/sql/1.0/warehouses/abc'' = Inr 1
   \<and> sql_connect (env_conn 2) ''/sql/1.0/warehouses/abc'' = Inr 2
   \<and> runs (concurrent_get_warehouse_http_path [env_conn 1, env_conn 1] [0, 1, 0, 1, 0, 1]) = 2"
  by code_simp
end
